theory Spec2Isabelle
  imports Main
begin

section \<open>JavaScript values\<close>

text \<open>
  The values the request handler of \<^verbatim>\<open>server.js\<close> handles: a query parameter as the
  query parser delivers it, and the payload of the metadata service as \<^verbatim>\<open>JSON.parse\<close>
  delivers it. A string is a \<open>char list\<close>, its characters being code units below 256; an
  object is the list of its properties, each key once. JSON numbers are left out of the
  model: the handler never computes with one, and printing one is floating-point formatting.
\<close>

datatype jsval =
    JUndefined
  | JNull
  | JBool bool
  | JStr string
  | JArr "jsval list"
  | JObj "(string \<times> jsval) list"

text \<open>The thrown value of a \<^verbatim>\<open>throw new Error(msg)\<close>; \<open>message\<close> is \<^verbatim>\<open>error.message\<close>.\<close>

datatype exn = Error (message: string)

text \<open>\<^verbatim>\<open>!!v\<close>: the truthiness every \<^verbatim>\<open>if (!v)\<close> of the source tests.\<close>

fun truthy :: "jsval \<Rightarrow> bool" where
  "truthy JUndefined = False"
| "truthy JNull = False"
| "truthy (JBool b) = b"
| "truthy (JStr s) = (s \<noteq> [])"
| "truthy (JArr xs) = True"
| "truthy (JObj kvs) = True"

fun typeof :: "jsval \<Rightarrow> string" where
  "typeof JUndefined = ''undefined''"
| "typeof JNull = ''object''"
| "typeof (JBool b) = ''boolean''"
| "typeof (JStr s) = ''string''"
| "typeof (JArr xs) = ''object''"
| "typeof (JObj kvs) = ''object''"

text \<open>\<^verbatim>\<open>Array.prototype.join(',')\<close> on strings already converted.\<close>

fun join_comma :: "string list \<Rightarrow> string" where
  "join_comma [] = []"
| "join_comma [s] = s"
| "join_comma (s # t # ss) = s @ '','' @ join_comma (t # ss)"

text \<open>
  \<^verbatim>\<open>String(v)\<close>, the conversion a template literal and \<^verbatim>\<open>RegExp.prototype.test\<close> apply to
  their argument. An array prints its elements joined by commas, \<^verbatim>\<open>null\<close> and
  \<^verbatim>\<open>undefined\<close> elements as the empty string.
\<close>

fun js_to_string :: "jsval \<Rightarrow> string" where
  "js_to_string JUndefined = ''undefined''"
| "js_to_string JNull = ''null''"
| "js_to_string (JBool b) = (if b then ''true'' else ''false'')"
| "js_to_string (JStr s) = s"
| "js_to_string (JArr xs) =
     join_comma (map (\<lambda>x. if x = JUndefined \<or> x = JNull then [] else js_to_string x) xs)"
| "js_to_string (JObj kvs) = ''[object Object]''"

text \<open>
  \<^verbatim>\<open>a === b\<close> where at least one side is a primitive: equal only when both are the same
  primitive. Two objects are equal by reference, which the source never compares.
\<close>

fun strict_eq :: "jsval \<Rightarrow> jsval \<Rightarrow> bool" where
  "strict_eq JUndefined JUndefined = True"
| "strict_eq JNull JNull = True"
| "strict_eq (JBool a) (JBool b) = (a = b)"
| "strict_eq (JStr a) (JStr b) = (a = b)"
| "strict_eq a b = False"

text \<open>
  Reading a property \<^verbatim>\<open>v.k\<close>. On \<^verbatim>\<open>null\<close> and \<^verbatim>\<open>undefined\<close> the read throws a
  TypeError; an object gives the property or \<^verbatim>\<open>undefined\<close>; every other value has none
  of the properties the handler reads (\<^verbatim>\<open>status\<close>, \<^verbatim>\<open>data\<close>, \<^verbatim>\<open>videoUrl\<close>,
  \<^verbatim>\<open>filename\<close>).
\<close>

fun get_prop :: "jsval \<Rightarrow> string \<Rightarrow> exn + jsval" where
  "get_prop JUndefined k =
     Inl (Error (''Cannot read properties of undefined (reading '' @ [CHR 0x27] @ k @ [CHR 0x27] @ '')''))"
| "get_prop JNull k =
     Inl (Error (''Cannot read properties of null (reading '' @ [CHR 0x27] @ k @ [CHR 0x27] @ '')''))"
| "get_prop (JObj kvs) k = Inr (case map_of kvs k of None \<Rightarrow> JUndefined | Some v \<Rightarrow> v)"
| "get_prop v k = Inr JUndefined"

text \<open>Optional chaining \<^verbatim>\<open>v?.k\<close>: \<^verbatim>\<open>undefined\<close> where \<^verbatim>\<open>v\<close> is null or undefined.\<close>

fun get_prop_opt :: "jsval \<Rightarrow> string \<Rightarrow> jsval" where
  "get_prop_opt JUndefined k = JUndefined"
| "get_prop_opt JNull k = JUndefined"
| "get_prop_opt (JObj kvs) k = (case map_of kvs k of None \<Rightarrow> JUndefined | Some v \<Rightarrow> v)"
| "get_prop_opt v k = JUndefined"

section \<open>Strings\<close>

text \<open>\<^verbatim>\<open>s.startsWith(p)\<close>, and the rest of \<open>s\<close> after a literal \<open>p\<close> matched at its start.\<close>

fun strip_prefix :: "string \<Rightarrow> string \<Rightarrow> string option" where
  "strip_prefix [] s = Some s"
| "strip_prefix (p # ps) [] = None"
| "strip_prefix (p # ps) (c # cs) = (if p = c then strip_prefix ps cs else None)"

text \<open>\<^verbatim>\<open>s.includes(sub)\<close>: \<open>sub\<close> occurs in \<open>s\<close> at some position.\<close>

fun str_includes :: "string \<Rightarrow> string \<Rightarrow> bool" where
  "str_includes [] sub = (sub = [])"
| "str_includes (c # cs) sub = (strip_prefix sub (c # cs) \<noteq> None \<or> str_includes cs sub)"

section \<open>URL Validator\<close>

text \<open>The character class \<^verbatim>\<open>[A-Za-z0-9_-]\<close>.\<close>

definition id_char :: "char \<Rightarrow> bool" where
  "id_char c =
     (let n = (of_char c :: nat) in
      (65 \<le> n \<and> n \<le> 90) \<or> (97 \<le> n \<and> n \<le> 122) \<or> (48 \<le> n \<and> n \<le> 57)
      \<or> c = CHR ''_'' \<or> c = CHR ''-'')"

text \<open>
  The regular expression of \<^verbatim>\<open>validateInstagramUrl\<close>,
  \<^verbatim>\<open>/^https:\/\/(?:www\.)?instagram\.com\/reel\/([A-Za-z0-9_-]+)/\<close>, matched piece by piece
  from the start of the subject: the literal \<^verbatim>\<open>https://\<close>, the optional group (tried
  with \<^verbatim>\<open>www.\<close> first and without it on backtracking), the literal
  \<^verbatim>\<open>instagram.com/reel/\<close>, and one or more characters of the class. The expression has
  no end anchor, so the match succeeds as soon as one class character is found.
\<close>

definition after_optional_www :: "string \<Rightarrow> string list" where
  "after_optional_www s = (case strip_prefix ''www.'' s of None \<Rightarrow> [s] | Some r \<Rightarrow> [r, s])"

definition reel_id_at :: "string \<Rightarrow> bool" where
  "reel_id_at s =
     (case strip_prefix ''instagram.com/reel/'' s of
        None \<Rightarrow> False
      | Some r \<Rightarrow> (case r of [] \<Rightarrow> False | c # cs \<Rightarrow> id_char c))"

definition regex_test :: "string \<Rightarrow> bool" where
  "regex_test s =
     (case strip_prefix ''https://'' s of
        None \<Rightarrow> False
      | Some r \<Rightarrow> list_ex reel_id_at (after_optional_www r))"

definition validateInstagramUrl :: "jsval \<Rightarrow> bool" where
  "validateInstagramUrl url = regex_test (js_to_string url)"

text \<open>
  The form the specification gives for an accepted URL, written from its words:
  \<^verbatim>\<open>https://[www.]instagram.com/reel/<id>\<close> with a non-empty \<^verbatim>\<open><id>\<close> of letters, digits,
  underscore or hyphen, and nothing after the id.
\<close>

definition spec_reel_url :: "string \<Rightarrow> bool" where
  "spec_reel_url s =
     ((case strip_prefix ''https://instagram.com/reel/'' s of
         None \<Rightarrow> False | Some i \<Rightarrow> i \<noteq> [] \<and> list_all id_char i)
      \<or> (case strip_prefix ''https://www.instagram.com/reel/'' s of
         None \<Rightarrow> False | Some i \<Rightarrow> i \<noteq> [] \<and> list_all id_char i))"

section \<open>The HTTP client\<close>

text \<open>
  What \<^verbatim>\<open>await axiosInstance.get(...)\<close> gives the caller: the promise is rejected with an
  error, or resolved with a response whose \<open>headers\<close> are read by lower-case name and
  whose \<open>data\<close> is the parsed JSON payload (metadata request) or the raw bytes (media
  request, \<^verbatim>\<open>responseType: 'arraybuffer'\<close>).
\<close>

record 'd response =
  headers :: "string \<rightharpoonup> string"
  data :: 'd

datatype 'd axios_result = Rejected exn | Resolved "'d response"

type_synonym bytes = "char list"

text \<open>
  The two upstream services as the handler sees them: the outcome of the metadata request
  issued for a reel URL, and of the media request issued for a video URL. The handler is
  deterministic in them; all its network access goes through these two functions.
\<close>

record world =
  metadata_get :: "jsval \<Rightarrow> jsval axios_result"
  media_get :: "jsval \<Rightarrow> bytes axios_result"

section \<open>Metadata Resolver\<close>

text \<open>The \<^verbatim>\<open>try\<close> block of \<^verbatim>\<open>fetchVideoInfo\<close>, then the function with its \<^verbatim>\<open>catch\<close>.\<close>

definition fetchVideoInfo_try :: "world \<Rightarrow> jsval \<Rightarrow> exn + jsval" where
  "fetchVideoInfo_try w url =
     (case metadata_get w url of
        Rejected error \<Rightarrow> Inl error
      | Resolved response \<Rightarrow>
          (let contentType = headers response ''content-type'' in
           if (case contentType of None \<Rightarrow> False
               | Some ct \<Rightarrow> ct \<noteq> [] \<and> str_includes ct ''text/html'')
           then Inl (Error ''API returned HTML instead of JSON'')
           else if \<not> truthy (data response) \<or> typeof (data response) \<noteq> ''object''
           then Inl (Error ''Invalid API response format'')
           else Inr (data response)))"

definition fetchVideoInfo :: "world \<Rightarrow> jsval \<Rightarrow> exn + jsval" where
  "fetchVideoInfo w url =
     (case fetchVideoInfo_try w url of
        Inl error \<Rightarrow> Inl (Error (''Failed to fetch video info: '' @ message error))
      | Inr videoInfo \<Rightarrow> Inr videoInfo)"

section \<open>Media Fetcher\<close>

definition fetchVideo :: "world \<Rightarrow> jsval \<Rightarrow> exn + bytes response" where
  "fetchVideo w videoUrl =
     (case media_get w videoUrl of
        Rejected error \<Rightarrow> Inl (Error (''Failed to fetch video: '' @ message error))
      | Resolved response \<Rightarrow> Inr \<lparr>headers = headers response, data = data response\<rparr>)"

section \<open>The outbound response\<close>

text \<open>
  The response object \<^verbatim>\<open>res\<close> to a \<^verbatim>\<open>GET\<close> request: the status code (200 until
  \<^verbatim>\<open>res.status\<close> is called), the headers the handler sets with \<^verbatim>\<open>res.setHeader\<close>, with the
  values they have when the response is sent, and the body sent with \<^verbatim>\<open>res.json\<close> or
  \<^verbatim>\<open>res.send\<close>. Headers that only the framework sets (the entity tag among them) are not
  tracked.

  \<^verbatim>\<open>res.setHeader\<close> is the platform's: it throws when the value is \<^verbatim>\<open>undefined\<close>, which is
  what reading a header the upstream response lacks gives, and when the value holds a
  character outside \<^verbatim>\<open>[\t\x20-\x7e\x80-\xff]\<close>; otherwise it sets the header.
\<close>

datatype sent = NotSent | SentJson jsval | SentBytes bytes

record res =
  statusCode :: nat
  sent_headers :: "string \<rightharpoonup> string"
  sent :: sent

definition new_res :: res where
  "new_res = \<lparr>statusCode = 200, sent_headers = Map.empty, sent = NotSent\<rparr>"

definition res_status :: "nat \<Rightarrow> res \<Rightarrow> res" where
  "res_status c r = r\<lparr>statusCode := c\<rparr>"

definition res_json :: "jsval \<Rightarrow> res \<Rightarrow> res" where
  "res_json v r = r\<lparr>sent := SentJson v\<rparr>"

text \<open>A length as \<^verbatim>\<open>String(len)\<close> prints it, in decimal digits.\<close>

fun decimal :: "nat \<Rightarrow> string" where
  "decimal n =
     (if n < 10 then [''0123456789'' ! n]
      else decimal (n div 10) @ [''0123456789'' ! (n mod 10)])"

declare decimal.simps [simp del]

text \<open>
  \<^verbatim>\<open>res.send(body)\<close> with a buffer, the framework's. It sets Content-Length to the length of
  the body, replacing a value set before. It then asks whether the request is fresh: a
  conditional request whose validators match the entity tag the framework computes for this
  body, asked only while the status is 2xx or 304. The request's side of that is the
  parameter \<open>fresh\<close>, a predicate on the body. A fresh request gets status 304; with status
  204 or 304 the headers Content-Type and Content-Length are removed and no body is sent.
\<close>

definition req_fresh :: "(bytes \<Rightarrow> bool) \<Rightarrow> res \<Rightarrow> bytes \<Rightarrow> bool" where
  "req_fresh fresh r body =
     (((200 \<le> statusCode r \<and> statusCode r < 300) \<or> statusCode r = 304) \<and> fresh body)"

definition res_send :: "(bytes \<Rightarrow> bool) \<Rightarrow> bytes \<Rightarrow> res \<Rightarrow> res" where
  "res_send fresh body r =
     (let r1 = r\<lparr>sent_headers := (sent_headers r)(''Content-Length'' \<mapsto> decimal (length body))\<rparr>;
          r2 = (if req_fresh fresh r1 body then r1\<lparr>statusCode := 304\<rparr> else r1)
      in if statusCode r2 = 204 \<or> statusCode r2 = 304
         then r2\<lparr>sent_headers := (sent_headers r2)(''Content-Type'' := None,
                                                     ''Content-Length'' := None),
                 sent := SentBytes []\<rparr>
         else r2\<lparr>sent := SentBytes body\<rparr>)"

definition header_char_ok :: "char \<Rightarrow> bool" where
  "header_char_ok c =
     (let n = (of_char c :: nat) in n = 9 \<or> (32 \<le> n \<and> n \<le> 126) \<or> 128 \<le> n)"

definition checkInvalidHeaderChar :: "string \<Rightarrow> bool" where
  "checkInvalidHeaderChar val = list_ex (\<lambda>c. \<not> header_char_ok c) val"

definition res_setHeader :: "string \<Rightarrow> string option \<Rightarrow> res \<Rightarrow> exn + res" where
  "res_setHeader name v r =
     (case v of
        None \<Rightarrow>
          Inl (Error (''Invalid value '' @ [CHR 0x22] @ ''undefined'' @ [CHR 0x22]
                      @ '' for header '' @ [CHR 0x22] @ name @ [CHR 0x22]))
      | Some s \<Rightarrow>
          if checkInvalidHeaderChar s
          then Inl (Error (''Invalid character in header content ['' @ [CHR 0x22] @ name
                           @ [CHR 0x22] @ '']''))
          else Inr (r\<lparr>sent_headers := (sent_headers r)(name \<mapsto> s)\<rparr>))"

section \<open>Request Handler\<close>

text \<open>The requests the handler issues through the client, in order.\<close>

datatype call = MetadataGet jsval | MediaGet jsval

text \<open>
  The condition of line 110,
  \<^verbatim>\<open>!videoInfo.status === 'success' || !videoInfo.data?.videoUrl\<close>. The negation binds
  tighter than the comparison: the left operand compares the boolean \<^verbatim>\<open>!videoInfo.status\<close>
  with a string.
\<close>

definition videoInfo_invalid :: "jsval \<Rightarrow> exn + bool" where
  "videoInfo_invalid videoInfo =
     (case get_prop videoInfo ''status'' of
        Inl e \<Rightarrow> Inl e
      | Inr st \<Rightarrow>
          if strict_eq (JBool (\<not> truthy st)) (JStr ''success'') then Inr True
          else (case get_prop videoInfo ''data'' of
                  Inl e \<Rightarrow> Inl e
                | Inr d \<Rightarrow> Inr (\<not> truthy (get_prop_opt d ''videoUrl''))))"

text \<open>\<^verbatim>\<open>videoInfo.data.videoUrl\<close> and \<^verbatim>\<open>videoInfo.data.filename\<close>.\<close>

definition videoInfo_data :: "jsval \<Rightarrow> string \<Rightarrow> exn + jsval" where
  "videoInfo_data videoInfo k =
     (case get_prop videoInfo ''data'' of Inl e \<Rightarrow> Inl e | Inr d \<Rightarrow> get_prop d k)"

text \<open>
  Lines 118 to 132: the content-type check, the five headers and the body. An exception
  leaves the headers set before it on the response.
\<close>

definition send_video ::
  "(bytes \<Rightarrow> bool) \<Rightarrow> jsval \<Rightarrow> bytes response \<Rightarrow> res \<Rightarrow> (exn \<times> res) + res" where
  "send_video fresh videoInfo videoResponse r =
     (let contentType = headers videoResponse ''content-type'' in
      if \<not> (case contentType of None \<Rightarrow> False | Some ct \<Rightarrow> str_includes ct ''video'')
      then Inr (res_json (JObj [(''error'', JStr ''Invalid video content type'')]) (res_status 400 r))
      else
        (case res_setHeader ''Content-Type'' contentType r of
           Inl e \<Rightarrow> Inl (e, r)
         | Inr r1 \<Rightarrow>
        (case res_setHeader ''Content-Length'' (headers videoResponse ''content-length'') r1 of
           Inl e \<Rightarrow> Inl (e, r1)
         | Inr r2 \<Rightarrow>
        (case videoInfo_data videoInfo ''filename'' of
           Inl e \<Rightarrow> Inl (e, r2)
         | Inr filename \<Rightarrow>
        (case res_setHeader ''Content-Disposition''
                (Some (''attachment; filename='' @ js_to_string filename)) r2 of
           Inl e \<Rightarrow> Inl (e, r2)
         | Inr r3 \<Rightarrow>
        (case res_setHeader ''Accept-Ranges'' (Some ''bytes'') r3 of
           Inl e \<Rightarrow> Inl (e, r3)
         | Inr r4 \<Rightarrow>
        (case res_setHeader ''Cache-Control'' (Some ''public, max-age=3600'') r4 of
           Inl e \<Rightarrow> Inl (e, r4)
         | Inr r5 \<Rightarrow> Inr (res_send fresh (data videoResponse) r5))))))))"

text \<open>
  The \<^verbatim>\<open>try\<close> block of the \<^verbatim>\<open>/download\<close> handler. It ends with the response written and
  the requests issued, or with an exception, the response as it stood and the requests issued
  before it.
\<close>

definition download_try ::
  "(bytes \<Rightarrow> bool) \<Rightarrow> world \<Rightarrow> jsval \<Rightarrow> res
     \<Rightarrow> (exn \<times> res \<times> call list) + (res \<times> call list)" where
  "download_try fresh w url r =
     (if \<not> truthy url
      then Inr (res_json (JObj [(''error'', JStr ''URL parameter is required'')])
                  (res_status 400 r), [])
      else if \<not> validateInstagramUrl url
      then Inr (res_json (JObj [(''error'', JStr ''Invalid Instagram reel URL format'')])
                  (res_status 400 r), [])
      else
        (case fetchVideoInfo w url of
           Inl e \<Rightarrow> Inl (e, r, [MetadataGet url])
         | Inr videoInfo \<Rightarrow>
        (case videoInfo_invalid videoInfo of
           Inl e \<Rightarrow> Inl (e, r, [MetadataGet url])
         | Inr True \<Rightarrow>
             Inr (res_json (JObj [(''error'', JStr ''Failed to get video URL from API'')])
                    (res_status 400 r), [MetadataGet url])
         | Inr False \<Rightarrow>
        (case videoInfo_data videoInfo ''videoUrl'' of
           Inl e \<Rightarrow> Inl (e, r, [MetadataGet url])
         | Inr videoUrl \<Rightarrow>
        (case fetchVideo w videoUrl of
           Inl e \<Rightarrow> Inl (e, r, [MetadataGet url, MediaGet videoUrl])
         | Inr videoResponse \<Rightarrow>
        (case send_video fresh videoInfo videoResponse r of
           Inl (e, r') \<Rightarrow> Inl (e, r', [MetadataGet url, MediaGet videoUrl])
         | Inr r' \<Rightarrow> Inr (r', [MetadataGet url, MediaGet videoUrl])))))))"

text \<open>
  The \<^verbatim>\<open>catch\<close> block of the handler (lines 139 to 154); \<open>env\<close> is
  \<^verbatim>\<open>process.env.NODE_ENV\<close>, \<open>None\<close> when it is not set.
\<close>

definition download_catch :: "string option \<Rightarrow> exn \<Rightarrow> res \<Rightarrow> res" where
  "download_catch env error r =
     (let errorMessage =
        (if env = Some ''development'' then message error
         else ''Failed to process video download'')
      in res_json (JObj [(''error'', JStr ''Internal server error''),
                         (''message'', JStr errorMessage)])
           (res_status 500 r))"

text \<open>
  The handler of \<^verbatim>\<open>GET /download\<close>: the response and the requests it issued.
  \<open>download_request\<close> is the handler on any \<^verbatim>\<open>GET\<close> request, \<open>download\<close> the handler on a
  request that is not conditional, which no body makes fresh.
\<close>

definition download_request ::
  "(bytes \<Rightarrow> bool) \<Rightarrow> string option \<Rightarrow> world \<Rightarrow> jsval \<Rightarrow> res \<times> call list" where
  "download_request fresh env w url =
     (case download_try fresh w url new_res of
        Inr (r, calls) \<Rightarrow> (r, calls)
      | Inl (error, r, calls) \<Rightarrow> (download_catch env error r, calls))"

definition download :: "string option \<Rightarrow> world \<Rightarrow> jsval \<Rightarrow> res \<times> call list" where
  "download env w url = download_request (\<lambda>body. False) env w url"

text \<open>The error-handling middleware (lines 163 to 174).\<close>

definition error_middleware :: "string option \<Rightarrow> exn \<Rightarrow> res \<Rightarrow> res" where
  "error_middleware env err r =
     res_json (JObj [(''error'', JStr ''Something went wrong''),
                     (''message'', if env = Some ''development'' then JStr (message err)
                                   else JUndefined)])
       (res_status 500 r)"

section \<open>Retry policy\<close>

text \<open>
  Line 19 attaches the interceptor of the \<^verbatim>\<open>retry-axios\<close> package to the client both
  fetchers use. The package is a dependency, not part of the repository; the definitions of
  this section follow its documented contract. After a failed request the interceptor fills
  the fields the request's \<^verbatim>\<open>raxConfig\<close> leaves out with its defaults, asks
  \<^verbatim>\<open>shouldRetryRequest\<close> whether the request may be retried, and then reads the response's
  \<^verbatim>\<open>Retry-After\<close> header.

  What the interceptor sees of one attempt: no response at all, or a response with its status
  code and its \<^verbatim>\<open>Retry-After\<close> header. \<open>RetryAfter d\<close> is a header that is present and not
  empty; \<open>d\<close> is the delay in milliseconds the interceptor reads from it (a number of seconds,
  or the time left until a date), \<open>None\<close> when it reads none.
\<close>

datatype retry_after = NoRetryAfter | RetryAfter "int option"

datatype attempt = NoResponse | HttpResponse nat retry_after

record raxConfig =
  retry :: nat
  noResponseRetries :: nat
  statusCodesToRetry :: "(nat \<times> nat) list"
  httpMethodsToRetry :: "string list"
  checkRetryAfter :: bool
  maxRetryAfter :: int
  currentRetryAttempt :: nat

text \<open>The defaults; \<^verbatim>\<open>maxRetryAfter\<close> is five minutes.\<close>

definition rax_defaults :: raxConfig where
  "rax_defaults =
     \<lparr>retry = 3, noResponseRetries = 2,
      statusCodesToRetry = [(100, 199), (429, 429), (500, 599)],
      httpMethodsToRetry = [''GET'', ''HEAD'', ''PUT'', ''OPTIONS'', ''DELETE''],
      checkRetryAfter = True, maxRetryAfter = 300000,
      currentRetryAttempt = 0\<rparr>"

text \<open>
  The \<^verbatim>\<open>raxConfig\<close> of the metadata request (lines 34 to 42); the delay and the logging
  callback do not enter the decision. The media request (lines 68 to 77) passes none.
\<close>

definition fetchVideoInfo_raxConfig :: raxConfig where
  "fetchVideoInfo_raxConfig =
     rax_defaults\<lparr>retry := 3, statusCodesToRetry := [(408, 429), (500, 599)]\<rparr>"

definition fetchVideo_raxConfig :: raxConfig where
  "fetchVideo_raxConfig = rax_defaults"

text \<open>
  \<^verbatim>\<open>validateStatus\<close>: the metadata request accepts status 200 only (line 33); the media
  request keeps the client's default, any status from 200 to 299.
\<close>

definition fetchVideoInfo_validateStatus :: "nat \<Rightarrow> bool" where
  "fetchVideoInfo_validateStatus s = (s = 200)"

definition fetchVideo_validateStatus :: "nat \<Rightarrow> bool" where
  "fetchVideo_validateStatus s = (200 \<le> s \<and> s < 300)"

definition request_failed :: "(nat \<Rightarrow> bool) \<Rightarrow> attempt \<Rightarrow> bool" where
  "request_failed validateStatus a =
     (case a of NoResponse \<Rightarrow> True | HttpResponse s ra \<Rightarrow> \<not> validateStatus s)"

text \<open>
  \<^verbatim>\<open>statusCodesToRetry\<close> is a list of ranges, each a pair of a lowest and a highest status
  code.
\<close>

definition in_ranges :: "(nat \<times> nat) list \<Rightarrow> nat \<Rightarrow> bool" where
  "in_ranges rs s = list_ex (\<lambda>(lo, hi). lo \<le> s \<and> s \<le> hi) rs"

definition shouldRetryRequest :: "raxConfig \<Rightarrow> string \<Rightarrow> attempt \<Rightarrow> bool" where
  "shouldRetryRequest cfg meth a =
     (if retry cfg = 0 then False
      else if a = NoResponse \<and> noResponseRetries cfg \<le> currentRetryAttempt cfg then False
      else if meth \<notin> set (httpMethodsToRetry cfg) then False
      else if (case a of NoResponse \<Rightarrow> False
               | HttpResponse s ra \<Rightarrow> s \<noteq> 0 \<and> \<not> in_ranges (statusCodesToRetry cfg) s)
      then False
      else if retry cfg \<le> currentRetryAttempt cfg then False
      else True)"

text \<open>
  The check of \<^verbatim>\<open>Retry-After\<close>, made once \<^verbatim>\<open>shouldRetryRequest\<close> has agreed: with
  \<^verbatim>\<open>checkRetryAfter\<close> on, a response that carries the header is retried only when the delay
  read from it is above zero and at most \<^verbatim>\<open>maxRetryAfter\<close>; otherwise the interceptor gives
  up.
\<close>

definition retryAfter_allows :: "raxConfig \<Rightarrow> attempt \<Rightarrow> bool" where
  "retryAfter_allows cfg a =
     (case a of
        NoResponse \<Rightarrow> True
      | HttpResponse s NoRetryAfter \<Rightarrow> True
      | HttpResponse s (RetryAfter d) \<Rightarrow>
          (if checkRetryAfter cfg
           then (case d of None \<Rightarrow> False | Some ms \<Rightarrow> 0 < ms \<and> ms \<le> maxRetryAfter cfg)
           else True))"

text \<open>
  The client with the interceptor attached. \<open>outcomes k\<close> is what the upstream does with the
  \<open>k\<close>-th request it receives; the result is the outcome of the last request and the number
  of requests issued. Each retry counts \<^verbatim>\<open>currentRetryAttempt\<close> up by one.

  The interceptor issues a retry through the client named by \<^verbatim>\<open>raxConfig.instance\<close>, which
  the source does not set; line 19 attaches the interceptor to the client made in line 11. The
  source does not settle whether a retried request passes through the interceptor again, so
  this is the parameter \<open>reattached\<close>: the first request always does, a later one only when
  \<open>reattached\<close> holds.
\<close>

function axios_get ::
  "bool \<Rightarrow> (nat \<Rightarrow> bool) \<Rightarrow> raxConfig \<Rightarrow> (nat \<Rightarrow> attempt) \<Rightarrow> nat \<Rightarrow> attempt \<times> nat" where
  "axios_get reattached validateStatus cfg outcomes k =
     (let a = outcomes k in
      if request_failed validateStatus a \<and> (k = 0 \<or> reattached)
         \<and> shouldRetryRequest cfg ''GET'' a \<and> retryAfter_allows cfg a
      then axios_get reattached validateStatus
             (cfg\<lparr>currentRetryAttempt := currentRetryAttempt cfg + 1\<rparr>) outcomes (k + 1)
      else (a, k + 1))"
  by pat_completeness auto
termination
  by (relation "measure (\<lambda>(r, v, cfg, u, k). retry cfg - currentRetryAttempt cfg)")
     (auto simp: shouldRetryRequest_def split: if_splits)

declare axios_get.simps [simp del]

text \<open>The request of \<^verbatim>\<open>fetchVideoInfo\<close> (line 32) and the request of \<^verbatim>\<open>fetchVideo\<close> (line 68).\<close>

definition fetchVideoInfo_get :: "bool \<Rightarrow> (nat \<Rightarrow> attempt) \<Rightarrow> attempt \<times> nat" where
  "fetchVideoInfo_get reattached outcomes =
     axios_get reattached fetchVideoInfo_validateStatus fetchVideoInfo_raxConfig outcomes 0"

definition fetchVideo_get :: "bool \<Rightarrow> (nat \<Rightarrow> attempt) \<Rightarrow> attempt \<times> nat" where
  "fetchVideo_get reattached outcomes =
     axios_get reattached fetchVideo_validateStatus fetchVideo_raxConfig outcomes 0"

section \<open>Example requests and upstreams\<close>

text \<open>Concrete inputs on which the theorems below are evaluated.\<close>

definition reel_url :: jsval where
  "reel_url = JStr ''https://www.instagram.com/reel/Cx_1-a''"

definition json_headers :: "string \<rightharpoonup> string" where
  "json_headers = [''content-type'' \<mapsto> ''application/json; charset=utf-8'']"

definition mp4_response :: "bytes response" where
  "mp4_response =
     \<lparr>headers = [''content-type'' \<mapsto> ''video/mp4'', ''content-length'' \<mapsto> ''3''],
      data = ''mp4''\<rparr>"

text \<open>An upstream whose metadata service answers every request with the given payload.\<close>

definition upstream :: "jsval \<Rightarrow> world" where
  "upstream payload =
     \<lparr>metadata_get = (\<lambda>u. Resolved \<lparr>headers = json_headers, data = payload\<rparr>),
      media_get = (\<lambda>u. Resolved mp4_response)\<rparr>"

text \<open>The payload of the specification's example, and one whose status is not the sentinel.\<close>

definition success_info :: jsval where
  "success_info =
     JObj [(''status'', JStr ''success''),
           (''data'', JObj [(''videoUrl'', JStr ''https://x/video.mp4''),
                            (''filename'', JStr ''v.mp4'')])]"

definition error_info :: jsval where
  "error_info =
     JObj [(''status'', JStr ''error''),
           (''data'', JObj [(''videoUrl'', JStr ''https://x/video.mp4''),
                            (''filename'', JStr ''v.mp4'')])]"

definition nameless_info :: jsval where
  "nameless_info =
     JObj [(''status'', JStr ''success''),
           (''data'', JObj [(''videoUrl'', JStr ''https://x/video.mp4'')])]"

text \<open>
  A payload whose filename holds a line feed; an upstream whose media response announces
  a content-length of 23 (the size in transit) for a body of 3 bytes; and one whose media
  service sends the video without a content-length.
\<close>

definition newline_info :: jsval where
  "newline_info =
     JObj [(''status'', JStr ''success''),
           (''data'', JObj [(''videoUrl'', JStr ''https://x/video.mp4''),
                            (''filename'', JStr (''v.mp4'' @ [CHR 0x0A] @ ''X-Injected: 1''))])]"

definition compressed_response :: "bytes response" where
  "compressed_response =
     \<lparr>headers = [''content-type'' \<mapsto> ''video/mp4'', ''content-length'' \<mapsto> ''23''],
      data = ''mp4''\<rparr>"

definition compressed_upstream :: world where
  "compressed_upstream =
     \<lparr>metadata_get = (\<lambda>u. Resolved \<lparr>headers = json_headers, data = success_info\<rparr>),
      media_get = (\<lambda>u. Resolved compressed_response)\<rparr>"

definition chunked_response :: "bytes response" where
  "chunked_response = \<lparr>headers = [''content-type'' \<mapsto> ''video/mp4''], data = ''mp4''\<rparr>"

definition chunked_upstream :: world where
  "chunked_upstream =
     \<lparr>metadata_get = (\<lambda>u. Resolved \<lparr>headers = json_headers, data = success_info\<rparr>),
      media_get = (\<lambda>u. Resolved chunked_response)\<rparr>"

text \<open>Upstreams whose metadata request fails: no answer at all, and an HTML page.\<close>

definition unreachable_upstream :: world where
  "unreachable_upstream =
     \<lparr>metadata_get = (\<lambda>u. Rejected (Error ''timeout of 15000ms exceeded'')),
      media_get = (\<lambda>u. Resolved mp4_response)\<rparr>"

definition html_upstream :: world where
  "html_upstream =
     \<lparr>metadata_get =
        (\<lambda>u. Resolved \<lparr>headers = [''content-type'' \<mapsto> ''text/html; charset=utf-8''],
                          data = JStr ''<html></html>''\<rparr>),
      media_get = (\<lambda>u. Resolved mp4_response)\<rparr>"

text \<open>
  Upstream behaviours over successive requests; \<open>plain s\<close> is a response with status \<open>s\<close>
  and no \<^verbatim>\<open>Retry-After\<close> header, and \<open>throttled\<close> answers 500 with a \<^verbatim>\<open>Retry-After\<close>
  of zero seconds.
\<close>

definition plain :: "nat \<Rightarrow> attempt" where
  "plain s = HttpResponse s NoRetryAfter"

definition always_500 :: "nat \<Rightarrow> attempt" where
  "always_500 k = plain 500"

definition recovers_on_third :: "nat \<Rightarrow> attempt" where
  "recovers_on_third k = (if k < 2 then plain 500 else plain 200)"

definition gone_once :: "nat \<Rightarrow> attempt" where
  "gone_once k = (if k = 0 then plain 410 else plain 200)"

definition flaky_media :: "nat \<Rightarrow> attempt" where
  "flaky_media k = (if k = 0 then plain 503 else plain 206)"

definition throttled :: "nat \<Rightarrow> attempt" where
  "throttled k = HttpResponse 500 (RetryAfter (Some 0))"

definition steady_media :: "nat \<Rightarrow> attempt" where
  "steady_media k = plain 206"

section \<open>Properties of the URL Validator\<close>

lemma strip_prefix_iff: "strip_prefix p s = Some r \<longleftrightarrow> s = p @ r"
  by (induction p s rule: strip_prefix.induct) auto

lemma strip_prefix_append: "strip_prefix p (p @ r) = Some r"
  by (induction p) auto

lemma strip_prefix_None: "strip_prefix p s = None \<Longrightarrow> s \<noteq> p @ r"
  using strip_prefix_append [of p r] by auto

lemma reel_id_at_iff:
  "reel_id_at s \<longleftrightarrow> (\<exists>c cs. id_char c \<and> s = ''instagram.com/reel/'' @ c # cs)"
  unfolding reel_id_at_def
  by (auto simp only: strip_prefix_iff split: option.splits list.splits dest: strip_prefix_None)

lemma optional_piece:
  "t \<in> set (case strip_prefix p r of None \<Rightarrow> [r] | Some q \<Rightarrow> [q, r]) \<longleftrightarrow> (t = r \<or> r = p @ t)"
proof (cases "strip_prefix p r")
  case None
  then show ?thesis using strip_prefix_None [OF None, of t] by simp
next
  case (Some q)
  then have "r = p @ q" by (simp only: strip_prefix_iff)
  with Some show ?thesis by auto
qed

lemma after_optional_www_iff:
  "t \<in> set (after_optional_www r) \<longleftrightarrow> (\<exists>w. (w = [] \<or> w = ''www.'') \<and> r = w @ t)"
  unfolding after_optional_www_def optional_piece by auto

lemma regex_test_iff:
  "regex_test s \<longleftrightarrow>
     (\<exists>w c cs. (w = [] \<or> w = ''www.'') \<and> id_char c
        \<and> s = ''https://'' @ w @ ''instagram.com/reel/'' @ c # cs)"
proof (cases "strip_prefix ''https://'' s")
  case None
  then have "\<And>r. s \<noteq> ''https://'' @ r" by (rule strip_prefix_None)
  with None show ?thesis by (auto simp only: regex_test_def option.case)
next
  case (Some r)
  then have s: "s = ''https://'' @ r" by (simp only: strip_prefix_iff)
  have "regex_test s \<longleftrightarrow> (\<exists>t \<in> set (after_optional_www r). reel_id_at t)"
    using Some by (simp only: regex_test_def option.case list_ex_iff)
  also have "\<dots> \<longleftrightarrow> (\<exists>w c cs. (w = [] \<or> w = ''www.'') \<and> id_char c
        \<and> r = w @ ''instagram.com/reel/'' @ c # cs)"
    by (simp only: after_optional_www_iff reel_id_at_iff Bex_def) blast
  also have "\<dots> \<longleftrightarrow> (\<exists>w c cs. (w = [] \<or> w = ''www.'') \<and> id_char c
        \<and> s = ''https://'' @ w @ ''instagram.com/reel/'' @ c # cs)"
    unfolding s by (simp only: same_append_eq)
  finally show ?thesis .
qed

lemma literal_then:
  "(case strip_prefix p s of None \<Rightarrow> False | Some i \<Rightarrow> P i) \<longleftrightarrow> (\<exists>i. s = p @ i \<and> P i)"
proof (cases "strip_prefix p s")
  case None
  then show ?thesis using strip_prefix_None [OF None] by simp
next
  case (Some i)
  then have "s = p @ i" by (simp only: strip_prefix_iff)
  with Some show ?thesis by simp
qed

lemma two_prefixes:
  assumes "p1 = h @ r" and "p2 = h @ w0 @ r"
  shows "((\<exists>i. s = p1 @ i \<and> Q i) \<or> (\<exists>i. s = p2 @ i \<and> Q i)) \<longleftrightarrow>
     (\<exists>w i. (w = [] \<or> w = w0) \<and> Q i \<and> s = h @ w @ r @ i)"
  unfolding assms by (simp only: append_assoc) (metis append_Nil)

lemma spec_reel_url_iff:
  "spec_reel_url s \<longleftrightarrow>
     (\<exists>w i. (w = [] \<or> w = ''www.'') \<and> (i \<noteq> [] \<and> list_all id_char i)
        \<and> s = ''https://'' @ w @ ''instagram.com/reel/'' @ i)"
proof -
  have "spec_reel_url s \<longleftrightarrow>
      (\<exists>i. s = ''https://instagram.com/reel/'' @ i \<and> (i \<noteq> [] \<and> list_all id_char i))
      \<or> (\<exists>i. s = ''https://www.instagram.com/reel/'' @ i \<and> (i \<noteq> [] \<and> list_all id_char i))"
    unfolding spec_reel_url_def literal_then ..
  also have "\<dots> \<longleftrightarrow> (\<exists>w i. (w = [] \<or> w = ''www.'') \<and> (i \<noteq> [] \<and> list_all id_char i)
        \<and> s = ''https://'' @ w @ ''instagram.com/reel/'' @ i)"
    by (rule two_prefixes) simp_all
  finally show ?thesis .
qed

lemma spec_reel_url_valid: "spec_reel_url s \<Longrightarrow> validateInstagramUrl (JStr s)"
proof -
  assume "spec_reel_url s"
  then obtain w i where w: "w = [] \<or> w = ''www.''" and i: "i \<noteq> []" "list_all id_char i"
    and s: "s = ''https://'' @ w @ ''instagram.com/reel/'' @ i"
    unfolding spec_reel_url_iff by blast
  from i obtain c cs where "i = c # cs" "id_char c" by (cases i) auto
  with w s have "\<exists>w c cs. (w = [] \<or> w = ''www.'') \<and> id_char c
        \<and> s = ''https://'' @ w @ ''instagram.com/reel/'' @ c # cs"
    by blast
  then show ?thesis
    unfolding validateInstagramUrl_def js_to_string.simps regex_test_iff .
qed

text \<open>
  Claim C6 as stated fails: a string with further text after the id is accepted although it
  is not of the form \<^verbatim>\<open>https://[www.]instagram.com/reel/<id>\<close>.
\<close>

theorem validateInstagramUrl_accepts_trailing_text:
  "validateInstagramUrl (JStr ''https://www.instagram.com/reel/abc/../../evil?x=1'')
     \<and> \<not> spec_reel_url ''https://www.instagram.com/reel/abc/../../evil?x=1''"
  by (simp add: validateInstagramUrl_def regex_test_def after_optional_www_def reel_id_at_def
      spec_reel_url_def id_char_def)

text \<open>
  Claim C6, as the code has it. \<^verbatim>\<open>validateInstagramUrl\<close> returns true for exactly the
  strings that \<^emph>\<open>begin\<close> with \<^verbatim>\<open>https://[www.]instagram.com/reel/<id>\<close>, the id one or more
  letters, digits, underscores or hyphens; whatever follows the id is not examined. It
  returns false for every other string.
\<close>

theorem validateInstagramUrl_iff_prefix:
  "validateInstagramUrl (JStr s) \<longleftrightarrow>
     (\<exists>w i rest. (w = [] \<or> w = ''www.'') \<and> i \<noteq> [] \<and> list_all id_char i
        \<and> s = ''https://'' @ w @ ''instagram.com/reel/'' @ i @ rest)"
  (is "?L = ?R")
proof
  assume ?L
  then obtain w c cs where "w = [] \<or> w = ''www.''" "id_char c"
    "s = ''https://'' @ w @ ''instagram.com/reel/'' @ c # cs"
    unfolding validateInstagramUrl_def js_to_string.simps regex_test_iff by blast
  then show ?R
    by (intro exI [of _ w] exI [of _ "[c]"] exI [of _ cs]) simp
next
  assume ?R
  then obtain w i rest where w: "w = [] \<or> w = ''www.''" and i: "i \<noteq> []" "list_all id_char i"
    and s: "s = ''https://'' @ w @ ''instagram.com/reel/'' @ i @ rest" by blast
  from i obtain c i' where ci: "i = c # i'" "id_char c" by (cases i) auto
  have "\<exists>w c cs. (w = [] \<or> w = ''www.'') \<and> id_char c
        \<and> s = ''https://'' @ w @ ''instagram.com/reel/'' @ c # cs"
    using w ci s by (intro exI [of _ w] exI [of _ c] exI [of _ "i' @ rest"]) simp
  then show ?L
    unfolding validateInstagramUrl_def js_to_string.simps regex_test_iff .
qed

theorem validateInstagramUrl_iff_prefix_witness:
  "validateInstagramUrl (JStr ''https://instagram.com/reel/Cx_1-a/?igsh=1'')"
proof -
  have "\<exists>w i rest. (w = [] \<or> w = ''www.'') \<and> i \<noteq> [] \<and> list_all id_char i
        \<and> ''https://instagram.com/reel/Cx_1-a/?igsh=1'' = ''https://'' @ w @ ''instagram.com/reel/'' @ i @ rest"
    by (intro exI [of _ "[]"] exI [of _ "''Cx_1-a''"] exI [of _ "''/?igsh=1''"]) (simp add: id_char_def)
  then show ?thesis by (simp only: validateInstagramUrl_iff_prefix)
qed

lemma valid_url_truthy: "validateInstagramUrl url \<Longrightarrow> truthy url"
  by (cases url) (auto simp: validateInstagramUrl_def regex_test_def split: if_splits)

section \<open>Properties of the Request Handler\<close>

lemma get_prop_opt_eq: "get_prop v k = Inr x \<Longrightarrow> get_prop_opt v k = x"
  by (cases v) auto

lemma videoInfo_invalid_eq:
  "videoInfo_data videoInfo ''videoUrl'' = Inr vu \<Longrightarrow>
     videoInfo_invalid videoInfo = Inr (\<not> truthy vu)"
  by (cases videoInfo)
     (auto simp: videoInfo_data_def videoInfo_invalid_def get_prop_opt_eq
           split: sum.splits option.splits)

lemma decimal_digit: "n < 10 \<Longrightarrow> decimal n = [''0123456789'' ! n]"
  by (simp add: decimal.simps)

lemma decimal_3: "decimal (Suc (Suc (Suc 0))) = ''3''"
  by (simp add: decimal.simps)

lemma header_value_replaced:
  "(m(''Content-Type'' \<mapsto> a, ''Content-Length'' \<mapsto> b, ''Content-Disposition'' \<mapsto> c,
      ''Accept-Ranges'' \<mapsto> d, ''Cache-Control'' \<mapsto> e))(''Content-Length'' \<mapsto> b')
   = m(''Content-Type'' \<mapsto> a, ''Content-Length'' \<mapsto> b', ''Content-Disposition'' \<mapsto> c,
      ''Accept-Ranges'' \<mapsto> d, ''Cache-Control'' \<mapsto> e)"
  by (rule ext) simp

lemma res_send_not_fresh:
  assumes "statusCode r = 200" and "\<not> fresh body"
  shows "res_send fresh body r =
     r\<lparr>sent_headers := (sent_headers r)(''Content-Length'' \<mapsto> decimal (length body)),
       sent := SentBytes body\<rparr>"
  using assms by (simp add: res_send_def req_fresh_def Let_def)

lemma res_send_fresh:
  assumes "statusCode r = 200" and "fresh body"
  shows "res_send fresh body r =
     r\<lparr>statusCode := 304,
       sent_headers := (sent_headers r)(''Content-Length'' := None, ''Content-Type'' := None),
       sent := SentBytes []\<rparr>"
  using assms by (simp add: res_send_def req_fresh_def Let_def fun_upd_twist)

lemma send_video_ok:
  assumes "headers videoResponse ''content-type'' = Some ct" and "str_includes ct ''video''"
    and "headers videoResponse ''content-length'' = Some cl"
    and "videoInfo_data videoInfo ''filename'' = Inr fn"
    and "\<not> checkInvalidHeaderChar ct" and "\<not> checkInvalidHeaderChar cl"
    and "\<not> checkInvalidHeaderChar (js_to_string fn)"
    and "statusCode r = 200" and "\<not> fresh (data videoResponse)"
  shows "send_video fresh videoInfo videoResponse r =
     Inr (r\<lparr>sent_headers := (sent_headers r)
            (''Content-Type'' \<mapsto> ct,
             ''Content-Length'' \<mapsto> decimal (length (data videoResponse)),
             ''Content-Disposition'' \<mapsto> ''attachment; filename='' @ js_to_string fn,
             ''Accept-Ranges'' \<mapsto> ''bytes'', ''Cache-Control'' \<mapsto> ''public, max-age=3600''),
           sent := SentBytes (data videoResponse)\<rparr>)"
  using assms
  by (simp add: send_video_def res_setHeader_def res_send_not_fresh checkInvalidHeaderChar_def
      header_char_ok_def header_value_replaced)

lemma download_request_streams:
  assumes "validateInstagramUrl url"
    and "fetchVideoInfo w url = Inr videoInfo"
    and "videoInfo_data videoInfo ''videoUrl'' = Inr vu" and "truthy vu"
    and "videoInfo_data videoInfo ''filename'' = Inr fn"
    and "media_get w vu = Resolved videoResponse"
    and "headers videoResponse ''content-type'' = Some ct" and "str_includes ct ''video''"
    and "headers videoResponse ''content-length'' = Some cl"
    and "\<not> checkInvalidHeaderChar ct" and "\<not> checkInvalidHeaderChar cl"
    and "\<not> checkInvalidHeaderChar (js_to_string fn)"
    and "\<not> fresh (data videoResponse)"
  shows "download_request fresh env w url =
     (\<lparr>statusCode = 200,
       sent_headers =
         [''Content-Type'' \<mapsto> ct,
          ''Content-Length'' \<mapsto> decimal (length (data videoResponse)),
          ''Content-Disposition'' \<mapsto> ''attachment; filename='' @ js_to_string fn,
          ''Accept-Ranges'' \<mapsto> ''bytes'', ''Cache-Control'' \<mapsto> ''public, max-age=3600''],
       sent = SentBytes (data videoResponse)\<rparr>,
      [MetadataGet url, MediaGet vu])"
proof -
  let ?vr = "\<lparr>headers = headers videoResponse, data = data videoResponse\<rparr>"
  have t: "truthy url" using assms(1) by (rule valid_url_truthy)
  have inv: "videoInfo_invalid videoInfo = Inr False"
    using videoInfo_invalid_eq [OF assms(3)] assms(4) by simp
  have fv: "fetchVideo w vu = Inr ?vr"
    using assms(6) by (simp add: fetchVideo_def)
  have sv: "send_video fresh videoInfo ?vr new_res =
     Inr (new_res\<lparr>sent_headers := (sent_headers new_res)
            (''Content-Type'' \<mapsto> ct,
             ''Content-Length'' \<mapsto> decimal (length (data videoResponse)),
             ''Content-Disposition'' \<mapsto> ''attachment; filename='' @ js_to_string fn,
             ''Accept-Ranges'' \<mapsto> ''bytes'', ''Cache-Control'' \<mapsto> ''public, max-age=3600''),
           sent := SentBytes (data videoResponse)\<rparr>)"
    using send_video_ok [of ?vr ct cl videoInfo fn new_res fresh] assms(5,7,8,9,10,11,12,13)
    by (simp add: new_res_def)
  show ?thesis
    unfolding download_request_def download_try_def
    using t assms(1,2,3) inv fv sv by (simp add: new_res_def)
qed

lemma download_streams:
  assumes "validateInstagramUrl url"
    and "fetchVideoInfo w url = Inr videoInfo"
    and "videoInfo_data videoInfo ''videoUrl'' = Inr vu" and "truthy vu"
    and "videoInfo_data videoInfo ''filename'' = Inr fn"
    and "media_get w vu = Resolved videoResponse"
    and "headers videoResponse ''content-type'' = Some ct" and "str_includes ct ''video''"
    and "headers videoResponse ''content-length'' = Some cl"
    and "\<not> checkInvalidHeaderChar ct" and "\<not> checkInvalidHeaderChar cl"
    and "\<not> checkInvalidHeaderChar (js_to_string fn)"
  shows "download env w url =
     (\<lparr>statusCode = 200,
       sent_headers =
         [''Content-Type'' \<mapsto> ct,
          ''Content-Length'' \<mapsto> decimal (length (data videoResponse)),
          ''Content-Disposition'' \<mapsto> ''attachment; filename='' @ js_to_string fn,
          ''Accept-Ranges'' \<mapsto> ''bytes'', ''Cache-Control'' \<mapsto> ''public, max-age=3600''],
       sent = SentBytes (data videoResponse)\<rparr>,
      [MetadataGet url, MediaGet vu])"
  unfolding download_def
  using download_request_streams [OF assms, of "\<lambda>body. False" env] by simp

lemma download_calls_when_valid:
  assumes "validateInstagramUrl url"
    and "fetchVideoInfo w url = Inr videoInfo"
    and "videoInfo_data videoInfo ''videoUrl'' = Inr vu" and "truthy vu"
  shows "snd (download env w url) = [MetadataGet url, MediaGet vu]"
proof -
  have inv: "videoInfo_invalid videoInfo = Inr False"
    using videoInfo_invalid_eq [OF assms(3)] assms(4) by simp
  show ?thesis
    unfolding download_def download_request_def download_try_def
    using valid_url_truthy [OF assms(1)] assms(1,2,3) inv
    by (simp split: sum.splits prod.splits)
qed

lemma download_resolution_failure:
  assumes "validateInstagramUrl url" and "fetchVideoInfo w url = Inl e"
  shows "download env w url = (download_catch env e new_res, [MetadataGet url])"
  using assms valid_url_truthy [OF assms(1)]
  by (simp add: download_def download_request_def download_try_def)

text \<open>
  When \<^verbatim>\<open>fetchVideoInfo\<close> throws: the request was rejected, the response is HTML, or its
  payload is not an object.
\<close>

lemma fetchVideoInfo_fails_iff:
  "isl (fetchVideoInfo w url) \<longleftrightarrow>
     (case metadata_get w url of
        Rejected error \<Rightarrow> True
      | Resolved response \<Rightarrow>
          (case headers response ''content-type'' of
             None \<Rightarrow> False | Some ct \<Rightarrow> str_includes ct ''text/html'')
          \<or> (\<forall>xs. data response \<noteq> JArr xs) \<and> (\<forall>kvs. data response \<noteq> JObj kvs))"
proof (cases "metadata_get w url")
  case (Rejected e)
  then show ?thesis by (simp add: fetchVideoInfo_def fetchVideoInfo_try_def)
next
  case (Resolved response)
  then show ?thesis
    by (cases "data response")
       (auto simp: fetchVideoInfo_def fetchVideoInfo_try_def Let_def split: option.splits)
qed

lemma send_video_statusCode:
  "send_video fresh videoInfo videoResponse r = Inr r' \<Longrightarrow>
     statusCode r' = 400 \<or> statusCode r' = statusCode r \<or> statusCode r' = 304"
  unfolding send_video_def Let_def res_setHeader_def res_json_def res_status_def res_send_def
  by (auto split: if_splits option.splits sum.splits)

lemma download_try_statusCode:
  "download_try fresh w url new_res = Inr (r, calls) \<Longrightarrow>
     statusCode r = 400 \<or> statusCode r = 200 \<or> statusCode r = 304"
  unfolding download_try_def
  by (auto simp: res_json_def res_status_def new_res_def
      split: if_splits sum.splits bool.splits prod.splits dest!: send_video_statusCode)

lemma download_500_body:
  assumes "env \<noteq> Some ''development''" and "statusCode (fst (download env w url)) = 500"
  shows "sent (fst (download env w url)) =
     SentJson (JObj [(''error'', JStr ''Internal server error''),
                     (''message'', JStr ''Failed to process video download'')])"
proof (cases "download_try (\<lambda>body. False) w url new_res")
  case (Inl x)
  then obtain e r calls where "download_try (\<lambda>body. False) w url new_res = Inl (e, r, calls)"
    by (cases x) auto
  then show ?thesis using assms(1)
    by (simp add: download_def download_request_def download_catch_def res_json_def
        res_status_def)
next
  case (Inr y)
  then obtain r calls where y: "download_try (\<lambda>body. False) w url new_res = Inr (r, calls)"
    by (cases y) auto
  then have "statusCode r = 400 \<or> statusCode r = 200 \<or> statusCode r = 304"
    by (rule download_try_statusCode)
  with y assms(2) show ?thesis by (auto simp: download_def download_request_def)
qed

text \<open>The status of the payload never enters the check of line 110.\<close>

lemma videoInfo_invalid_ignores_status:
  "videoInfo_invalid (JObj kvs) =
     Inr (\<not> truthy (get_prop_opt
            (case map_of kvs ''data'' of None \<Rightarrow> JUndefined | Some d \<Rightarrow> d) ''videoUrl''))"
  by (simp add: videoInfo_invalid_def)

subsection \<open>The example inputs\<close>

lemma reel_url_valid: "validateInstagramUrl reel_url"
  by (simp add: reel_url_def validateInstagramUrl_def regex_test_def after_optional_www_def
      reel_id_at_def id_char_def)

lemma fetchVideoInfo_upstream:
  "truthy payload \<Longrightarrow> typeof payload = ''object'' \<Longrightarrow>
     fetchVideoInfo (upstream payload) url = Inr payload"
  by (simp add: fetchVideoInfo_def fetchVideoInfo_try_def upstream_def json_headers_def)

lemma mp4_response_fields:
  "headers mp4_response ''content-type'' = Some ''video/mp4''"
  "headers mp4_response ''content-length'' = Some ''3''"
  "data mp4_response = ''mp4''"
  by (simp_all add: mp4_response_def)

lemma example_header_text_ok:
  "\<not> checkInvalidHeaderChar ''video/mp4''"
  "\<not> checkInvalidHeaderChar ''3''"
  "\<not> checkInvalidHeaderChar ''v.mp4''"
  "\<not> checkInvalidHeaderChar ''undefined''"
  by (simp_all add: checkInvalidHeaderChar_def header_char_ok_def)

lemma fetchVideoInfo_unreachable:
  "fetchVideoInfo unreachable_upstream reel_url =
     Inl (Error ''Failed to fetch video info: timeout of 15000ms exceeded'')"
  by (simp add: fetchVideoInfo_def fetchVideoInfo_try_def unreachable_upstream_def)

lemma fetchVideoInfo_html:
  "fetchVideoInfo html_upstream reel_url =
     Inl (Error ''Failed to fetch video info: API returned HTML instead of JSON'')"
  by (simp add: fetchVideoInfo_def fetchVideoInfo_try_def html_upstream_def)

subsection \<open>Failed metadata resolution\<close>

text \<open>
  Claim C1 as stated fails: with a valid reel URL and a metadata service that answers with an
  HTML page, \<^verbatim>\<open>fetchVideoInfo\<close> throws and the handler responds 500, not 400.
\<close>

theorem resolution_failure_is_not_400:
  "validateInstagramUrl reel_url \<and> isl (fetchVideoInfo html_upstream reel_url)
     \<and> statusCode (fst (download None html_upstream reel_url)) = 500
     \<and> statusCode (fst (download None html_upstream reel_url)) \<noteq> 400"
proof -
  have "statusCode (fst (download None html_upstream reel_url)) = 500"
    unfolding download_resolution_failure [OF reel_url_valid fetchVideoInfo_html]
    by (simp add: download_catch_def res_json_def res_status_def new_res_def)
  with fetchVideoInfo_html reel_url_valid show ?thesis by simp
qed

text \<open>
  Claim C1, as the code has it. For every request with a valid reel URL whose metadata
  resolution fails (\<^verbatim>\<open>fetchVideoInfo\<close> throws, whatever the cause), the handler responds with
  status 500 and the body of its \<^verbatim>\<open>catch\<close> block: error \<^verbatim>\<open>Internal server error\<close> and a
  message that is the thrown error's in development and a fixed text otherwise. Only the
  metadata request has been issued.
\<close>

theorem resolution_failure_responds_500:
  assumes "validateInstagramUrl url" and "isl (fetchVideoInfo w url)"
  shows "statusCode (fst (download env w url)) = 500
     \<and> sent (fst (download env w url)) =
         SentJson (JObj [(''error'', JStr ''Internal server error''),
                         (''message'', JStr (if env = Some ''development''
                                             then message (projl (fetchVideoInfo w url))
                                             else ''Failed to process video download''))])
     \<and> snd (download env w url) = [MetadataGet url]"
proof -
  from assms(2) obtain e where e: "fetchVideoInfo w url = Inl e"
    by (cases "fetchVideoInfo w url") auto
  show ?thesis
    unfolding download_resolution_failure [OF assms(1) e] e
    by (simp add: download_catch_def res_json_def res_status_def new_res_def)
qed

theorem resolution_failure_responds_500_witness:
  "validateInstagramUrl reel_url \<and> isl (fetchVideoInfo unreachable_upstream reel_url)
   \<and> statusCode (fst (download (Some ''production'') unreachable_upstream reel_url)) = 500
   \<and> sent (fst (download (Some ''production'') unreachable_upstream reel_url)) =
         SentJson (JObj [(''error'', JStr ''Internal server error''),
                         (''message'', JStr ''Failed to process video download'')])
   \<and> snd (download (Some ''production'') unreachable_upstream reel_url) = [MetadataGet reel_url]"
proof -
  have f: "isl (fetchVideoInfo unreachable_upstream reel_url)"
    by (simp add: fetchVideoInfo_unreachable)
  show ?thesis
    using resolution_failure_responds_500 [OF reel_url_valid f, of "Some ''production''"]
      reel_url_valid f by simp
qed

subsection \<open>The status of the metadata payload\<close>

text \<open>
  Claim C2 at a failing input. The metadata service answers
  \<^verbatim>\<open>{status: "error", data: {videoUrl: "https://x/video.mp4", filename: "v.mp4"}}\<close>; the
  claim has the handler respond 400 without a media request. The handler issues the media
  request and streams the video with status 200.
\<close>

theorem non_success_status_is_streamed:
  "download env (upstream error_info) reel_url =
     (\<lparr>statusCode = 200,
       sent_headers =
         [''Content-Type'' \<mapsto> ''video/mp4'', ''Content-Length'' \<mapsto> ''3'',
          ''Content-Disposition'' \<mapsto> ''attachment; filename=v.mp4'',
          ''Accept-Ranges'' \<mapsto> ''bytes'', ''Cache-Control'' \<mapsto> ''public, max-age=3600''],
       sent = SentBytes ''mp4''\<rparr>,
      [MetadataGet reel_url, MediaGet (JStr ''https://x/video.mp4'')])"
proof -
  have 1: "fetchVideoInfo (upstream error_info) reel_url = Inr error_info"
    by (rule fetchVideoInfo_upstream) (simp_all add: error_info_def)
  have 2: "videoInfo_data error_info ''videoUrl'' = Inr (JStr ''https://x/video.mp4'')"
    by (simp add: videoInfo_data_def error_info_def)
  have 3: "videoInfo_data error_info ''filename'' = Inr (JStr ''v.mp4'')"
    by (simp add: videoInfo_data_def error_info_def)
  have 4: "media_get (upstream error_info) (JStr ''https://x/video.mp4'') = Resolved mp4_response"
    by (simp add: upstream_def)
  have 5: "str_includes ''video/mp4'' ''video''" by simp
  have 6: "truthy (JStr ''https://x/video.mp4'')" by simp
  show ?thesis
    using download_streams [OF reel_url_valid 1 2 6 3 4 mp4_response_fields(1) 5
        mp4_response_fields(2) example_header_text_ok(1,2), of env] mp4_response_fields(3)
      example_header_text_ok(3)
    by (simp add: decimal_3)
qed

subsection \<open>The success response\<close>

text \<open>
  Claim C7 as stated fails at inputs that meet its conditions (valid reel URL, status
  \<^verbatim>\<open>"success"\<close>, non-empty \<^verbatim>\<open>videoUrl\<close>, a filename, a media fetch with content-type
  \<^verbatim>\<open>video/mp4\<close>). The media response announces content-length 23 for a body of 3 bytes:
  \<^verbatim>\<open>res.send\<close> replaces the copied value, and the response carries Content-Length 3. The
  request is conditional and fresh: the response is 304 without body, Content-Type or
  Content-Length. The media response carries no content-length, or the filename holds a line
  feed: \<^verbatim>\<open>res.setHeader\<close> throws in line 126 or 127, and the handler responds 500.
\<close>

theorem success_response_is_not_a_copy:
  "validateInstagramUrl reel_url
   \<and> fetchVideoInfo compressed_upstream reel_url = Inr success_info
   \<and> media_get compressed_upstream (JStr ''https://x/video.mp4'') = Resolved compressed_response
   \<and> headers compressed_response ''content-type'' = Some ''video/mp4''
   \<and> headers compressed_response ''content-length'' = Some ''23''
   \<and> sent_headers (fst (download None compressed_upstream reel_url)) ''Content-Length''
       = Some ''3''
   \<and> fetchVideoInfo (upstream success_info) reel_url = Inr success_info
   \<and> media_get (upstream success_info) (JStr ''https://x/video.mp4'') = Resolved mp4_response
   \<and> headers mp4_response ''content-type'' = Some ''video/mp4''
   \<and> fst (download_request (\<lambda>body. True) None (upstream success_info) reel_url)
       = \<lparr>statusCode = 304,
          sent_headers =
            [''Content-Disposition'' \<mapsto> ''attachment; filename=v.mp4'',
             ''Accept-Ranges'' \<mapsto> ''bytes'', ''Cache-Control'' \<mapsto> ''public, max-age=3600''],
          sent = SentBytes []\<rparr>
   \<and> fetchVideoInfo chunked_upstream reel_url = Inr success_info
   \<and> media_get chunked_upstream (JStr ''https://x/video.mp4'') = Resolved chunked_response
   \<and> headers chunked_response ''content-type'' = Some ''video/mp4''
   \<and> statusCode (fst (download None chunked_upstream reel_url)) = 500
   \<and> fetchVideoInfo (upstream newline_info) reel_url = Inr newline_info
   \<and> media_get (upstream newline_info) (JStr ''https://x/video.mp4'') = Resolved mp4_response
   \<and> statusCode (fst (download None (upstream newline_info) reel_url)) = 500"
proof -
  have t: "truthy reel_url" by (simp add: reel_url_def)
  have f: "fetchVideoInfo compressed_upstream reel_url = Inr success_info"
    "fetchVideoInfo chunked_upstream reel_url = Inr success_info"
    by (simp_all add: fetchVideoInfo_def fetchVideoInfo_try_def compressed_upstream_def
        chunked_upstream_def json_headers_def success_info_def)
  have g: "fetchVideoInfo (upstream success_info) reel_url = Inr success_info"
    "fetchVideoInfo (upstream newline_info) reel_url = Inr newline_info"
    by (rule fetchVideoInfo_upstream; simp add: success_info_def newline_info_def)+
  have m: "media_get compressed_upstream (JStr ''https://x/video.mp4'') = Resolved compressed_response"
    "media_get chunked_upstream (JStr ''https://x/video.mp4'') = Resolved chunked_response"
    "media_get (upstream success_info) (JStr ''https://x/video.mp4'') = Resolved mp4_response"
    "media_get (upstream newline_info) (JStr ''https://x/video.mp4'') = Resolved mp4_response"
    by (simp_all add: compressed_upstream_def chunked_upstream_def upstream_def)
  have h: "headers compressed_response ''content-type'' = Some ''video/mp4''"
    "headers compressed_response ''content-length'' = Some ''23''"
    "data compressed_response = ''mp4''"
    "headers chunked_response ''content-type'' = Some ''video/mp4''"
    by (simp_all add: compressed_response_def chunked_response_def)
  have v: "videoInfo_invalid success_info = Inr False"
    "videoInfo_data success_info ''videoUrl'' = Inr (JStr ''https://x/video.mp4'')"
    "videoInfo_data success_info ''filename'' = Inr (JStr ''v.mp4'')"
    "videoInfo_invalid newline_info = Inr False"
    "videoInfo_data newline_info ''videoUrl'' = Inr (JStr ''https://x/video.mp4'')"
    by (simp_all add: videoInfo_invalid_def videoInfo_data_def success_info_def newline_info_def)
  have ok23: "\<not> checkInvalidHeaderChar ''23''"
    by (simp add: checkInvalidHeaderChar_def header_char_ok_def)
  have 1: "sent_headers (fst (download None compressed_upstream reel_url)) ''Content-Length''
      = Some ''3''"
    using download_streams [OF reel_url_valid f(1) v(2) _ v(3) m(1) h(1) _ h(2)
        example_header_text_ok(1) ok23, of None] h(3) example_header_text_ok(3)
    by (simp add: decimal_3)
  have sv: "send_video (\<lambda>body. True) success_info mp4_response new_res =
      Inr \<lparr>statusCode = 304,
          sent_headers =
            [''Content-Disposition'' \<mapsto> ''attachment; filename=v.mp4'',
             ''Accept-Ranges'' \<mapsto> ''bytes'', ''Cache-Control'' \<mapsto> ''public, max-age=3600''],
          sent = SentBytes []\<rparr>"
    by (simp add: send_video_def res_setHeader_def mp4_response_def new_res_def v(3)
        checkInvalidHeaderChar_def header_char_ok_def res_send_fresh)
  have 2: "fst (download_request (\<lambda>body. True) None (upstream success_info) reel_url)
      = \<lparr>statusCode = 304,
          sent_headers =
            [''Content-Disposition'' \<mapsto> ''attachment; filename=v.mp4'',
             ''Accept-Ranges'' \<mapsto> ''bytes'', ''Cache-Control'' \<mapsto> ''public, max-age=3600''],
          sent = SentBytes []\<rparr>"
    using t reel_url_valid g(1) m(3) v(1,2) sv
    by (simp add: download_request_def download_try_def fetchVideo_def mp4_response_def)
  have 5: "send_video (\<lambda>body. False) success_info chunked_response new_res =
      Inl (Error (''Invalid value '' @ [CHR 0x22] @ ''undefined'' @ [CHR 0x22]
                  @ '' for header '' @ [CHR 0x22] @ ''Content-Length'' @ [CHR 0x22]),
           new_res\<lparr>sent_headers := [''Content-Type'' \<mapsto> ''video/mp4'']\<rparr>)"
    by (simp add: send_video_def res_setHeader_def chunked_response_def new_res_def
        checkInvalidHeaderChar_def header_char_ok_def)
  have 6: "\<exists>e r. send_video (\<lambda>body. False) newline_info mp4_response new_res = Inl (e, r)"
    by (simp add: send_video_def res_setHeader_def mp4_response_def new_res_def
        videoInfo_data_def newline_info_def checkInvalidHeaderChar_def header_char_ok_def)
  have 3: "statusCode (fst (download None chunked_upstream reel_url)) = 500"
    using t reel_url_valid f(2) m(2) v(1,2) 5
    by (simp add: download_def download_request_def download_try_def fetchVideo_def
        chunked_response_def download_catch_def res_json_def res_status_def)
  from 6 obtain e r where 7: "send_video (\<lambda>body. False) newline_info mp4_response new_res = Inl (e, r)"
    by blast
  have 4: "statusCode (fst (download None (upstream newline_info) reel_url)) = 500"
    using t reel_url_valid g(2) m(4) v(4,5) 7
    by (simp add: download_def download_request_def download_try_def fetchVideo_def
        mp4_response_def download_catch_def res_json_def res_status_def)
  from 1 2 3 4 f g m h(1,2,4) reel_url_valid mp4_response_fields(1) show ?thesis by simp
qed

text \<open>
  Claim C7, as the code has it. For every \<^verbatim>\<open>GET\<close> request with a valid reel URL that is not
  a fresh conditional request, a resolver result whose \<^verbatim>\<open>status\<close> is \<^verbatim>\<open>"success"\<close> and whose
  \<^verbatim>\<open>data\<close> holds a non-empty \<^verbatim>\<open>videoUrl\<close> and a \<^verbatim>\<open>filename\<close>, and a media fetch returning
  bytes with a content-type containing \<^verbatim>\<open>video\<close> and a content-length, where content-type,
  content-length and filename hold only characters a header value may hold, the handler
  responds 200 with the fetched bytes as body, Content-Type copied from the fetch,
  Content-Length the length of the body (with which \<^verbatim>\<open>res.send\<close> replaces the value copied
  from the fetch), Content-Disposition \<^verbatim>\<open>attachment; filename=<filename>\<close>, Accept-Ranges
  \<^verbatim>\<open>bytes\<close> and Cache-Control \<^verbatim>\<open>public, max-age=3600\<close>; of the headers the handler sets, no
  other.
\<close>

theorem success_response:
  assumes "validateInstagramUrl url"
    and "fetchVideoInfo w url = Inr videoInfo"
    and "get_prop videoInfo ''status'' = Inr (JStr ''success'')"
    and "videoInfo_data videoInfo ''videoUrl'' = Inr (JStr videoUrl)" and "videoUrl \<noteq> []"
    and "videoInfo_data videoInfo ''filename'' = Inr (JStr filename)"
    and "media_get w (JStr videoUrl) = Resolved videoResponse"
    and "headers videoResponse ''content-type'' = Some contentType"
    and "str_includes contentType ''video''"
    and "headers videoResponse ''content-length'' = Some contentLength"
    and "\<not> checkInvalidHeaderChar contentType"
    and "\<not> checkInvalidHeaderChar contentLength"
    and "\<not> checkInvalidHeaderChar filename"
    and "\<not> fresh (data videoResponse)"
  shows "download_request fresh env w url =
     (\<lparr>statusCode = 200,
       sent_headers =
         [''Content-Type'' \<mapsto> contentType,
          ''Content-Length'' \<mapsto> decimal (length (data videoResponse)),
          ''Content-Disposition'' \<mapsto> ''attachment; filename='' @ filename,
          ''Accept-Ranges'' \<mapsto> ''bytes'', ''Cache-Control'' \<mapsto> ''public, max-age=3600''],
       sent = SentBytes (data videoResponse)\<rparr>,
      [MetadataGet url, MediaGet (JStr videoUrl)])"
proof -
  have t: "truthy (JStr videoUrl)" using assms(5) by simp
  have f: "\<not> checkInvalidHeaderChar (js_to_string (JStr filename))"
    using assms(13) by simp
  from download_request_streams [where fresh = fresh and env = env,
      OF assms(1,2,4) t assms(6,7,8,9,10,11,12) f assms(14)]
  show ?thesis by simp
qed

theorem success_response_witness:
  "download_request (\<lambda>body. False) None (upstream success_info) reel_url =
     (\<lparr>statusCode = 200,
       sent_headers =
         [''Content-Type'' \<mapsto> ''video/mp4'', ''Content-Length'' \<mapsto> ''3'',
          ''Content-Disposition'' \<mapsto> ''attachment; filename=v.mp4'',
          ''Accept-Ranges'' \<mapsto> ''bytes'', ''Cache-Control'' \<mapsto> ''public, max-age=3600''],
       sent = SentBytes ''mp4''\<rparr>,
      [MetadataGet reel_url, MediaGet (JStr ''https://x/video.mp4'')])"
proof -
  have 1: "fetchVideoInfo (upstream success_info) reel_url = Inr success_info"
    by (rule fetchVideoInfo_upstream) (simp_all add: success_info_def)
  have 2: "videoInfo_data success_info ''videoUrl'' = Inr (JStr ''https://x/video.mp4'')"
    by (simp add: videoInfo_data_def success_info_def)
  have 3: "videoInfo_data success_info ''filename'' = Inr (JStr ''v.mp4'')"
    by (simp add: videoInfo_data_def success_info_def)
  have 4: "media_get (upstream success_info) (JStr ''https://x/video.mp4'') = Resolved mp4_response"
    by (simp add: upstream_def)
  have 5: "str_includes ''video/mp4'' ''video''" by simp
  have 6: "''https://x/video.mp4'' \<noteq> []" by simp
  have 7: "get_prop success_info ''status'' = Inr (JStr ''success'')"
    by (simp add: success_info_def)
  have 8: "\<not> False" by simp
  show ?thesis
    using success_response [where fresh = "\<lambda>body. False" and env = None,
        OF reel_url_valid 1 7 2 6 3 4 mp4_response_fields(1) 5
        mp4_response_fields(2) example_header_text_ok(1,2,3) 8]
      mp4_response_fields(3)
    by (simp add: decimal_3)
qed

text \<open>
  Claim C10. The validity check of line 110 does not read \<^verbatim>\<open>data.filename\<close>: with a
  non-empty \<^verbatim>\<open>data.videoUrl\<close> and no \<^verbatim>\<open>data.filename\<close> the check passes and the media
  request is issued; when that fetch succeeds, with a video content-type and a content-length
  that \<^verbatim>\<open>res.setHeader\<close> accepts, the response has status 200 and the header
  \<^verbatim>\<open>Content-Disposition: attachment; filename=undefined\<close>.
\<close>

theorem missing_filename_is_sent_as_undefined:
  assumes "validateInstagramUrl url"
    and "fetchVideoInfo w url = Inr videoInfo"
    and "videoInfo_data videoInfo ''videoUrl'' = Inr (JStr videoUrl)" and "videoUrl \<noteq> []"
    and "videoInfo_data videoInfo ''filename'' = Inr JUndefined"
  shows "videoInfo_invalid videoInfo = Inr False
     \<and> snd (download env w url) = [MetadataGet url, MediaGet (JStr videoUrl)]
     \<and> (\<forall>videoResponse contentType contentLength.
          media_get w (JStr videoUrl) = Resolved videoResponse
          \<and> headers videoResponse ''content-type'' = Some contentType
          \<and> str_includes contentType ''video''
          \<and> headers videoResponse ''content-length'' = Some contentLength
          \<and> \<not> checkInvalidHeaderChar contentType
          \<and> \<not> checkInvalidHeaderChar contentLength
          \<longrightarrow> statusCode (fst (download env w url)) = 200
              \<and> sent (fst (download env w url)) = SentBytes (data videoResponse)
              \<and> sent_headers (fst (download env w url)) ''Content-Disposition''
                  = Some ''attachment; filename=undefined'')"
proof -
  have t: "truthy (JStr videoUrl)" using assms(4) by simp
  have a: "videoInfo_invalid videoInfo = Inr False"
    using videoInfo_invalid_eq [OF assms(3)] t by simp
  have b: "snd (download env w url) = [MetadataGet url, MediaGet (JStr videoUrl)]"
    using assms(1,2,3) t by (rule download_calls_when_valid)
  have c: "statusCode (fst (download env w url)) = 200
      \<and> sent (fst (download env w url)) = SentBytes (data videoResponse)
      \<and> sent_headers (fst (download env w url)) ''Content-Disposition''
          = Some ''attachment; filename=undefined''"
    if "media_get w (JStr videoUrl) = Resolved videoResponse"
      and "headers videoResponse ''content-type'' = Some contentType"
      and "str_includes contentType ''video''"
      and "headers videoResponse ''content-length'' = Some contentLength"
      and "\<not> checkInvalidHeaderChar contentType"
      and "\<not> checkInvalidHeaderChar contentLength"
    for videoResponse contentType contentLength
    using download_streams [OF assms(1,2,3) t assms(5) that, of env] example_header_text_ok(4)
    by simp
  from a b c show ?thesis by blast
qed

theorem missing_filename_is_sent_as_undefined_witness:
  "videoInfo_invalid nameless_info = Inr False
   \<and> snd (download None (upstream nameless_info) reel_url)
       = [MetadataGet reel_url, MediaGet (JStr ''https://x/video.mp4'')]
   \<and> statusCode (fst (download None (upstream nameless_info) reel_url)) = 200
   \<and> sent (fst (download None (upstream nameless_info) reel_url)) = SentBytes ''mp4''
   \<and> sent_headers (fst (download None (upstream nameless_info) reel_url)) ''Content-Disposition''
       = Some ''attachment; filename=undefined''"
proof -
  have 1: "fetchVideoInfo (upstream nameless_info) reel_url = Inr nameless_info"
    by (rule fetchVideoInfo_upstream) (simp_all add: nameless_info_def)
  have 2: "videoInfo_data nameless_info ''videoUrl'' = Inr (JStr ''https://x/video.mp4'')"
    by (simp add: videoInfo_data_def nameless_info_def)
  have 3: "videoInfo_data nameless_info ''filename'' = Inr JUndefined"
    by (simp add: videoInfo_data_def nameless_info_def)
  have 4: "media_get (upstream nameless_info) (JStr ''https://x/video.mp4'') = Resolved mp4_response
     \<and> headers mp4_response ''content-type'' = Some ''video/mp4''
     \<and> str_includes ''video/mp4'' ''video''
     \<and> headers mp4_response ''content-length'' = Some ''3''
     \<and> \<not> checkInvalidHeaderChar ''video/mp4''
     \<and> \<not> checkInvalidHeaderChar ''3''"
    by (simp add: upstream_def mp4_response_def example_header_text_ok)
  have 5: "''https://x/video.mp4'' \<noteq> []" by simp
  show ?thesis
    using missing_filename_is_sent_as_undefined [OF reel_url_valid 1 2 5 3, of None] 4
      mp4_response_fields(3)
    by metis
qed

subsection \<open>Input validation\<close>

text \<open>
  Claim C9. A request whose \<^verbatim>\<open>url\<close> parameter is the empty string gets the response of a
  request without the parameter: status 400 with error \<^verbatim>\<open>URL parameter is required\<close>, and no
  request is issued to either upstream.
\<close>

theorem empty_url_is_missing_url:
  "download env w (JStr []) =
     (\<lparr>statusCode = 400, sent_headers = Map.empty,
       sent = SentJson (JObj [(''error'', JStr ''URL parameter is required'')])\<rparr>, [])
   \<and> download env w (JStr []) = download env w JUndefined"
  by (simp add: download_def download_request_def download_try_def new_res_def res_json_def
      res_status_def)

subsection \<open>Error detail outside development\<close>

text \<open>
  Claim C8. When the environment is not \<^verbatim>\<open>development\<close>, the 500 response does not depend
  on the error: the \<^verbatim>\<open>catch\<close> block of the handler writes the same response for any two
  errors, its message being the fixed text \<^verbatim>\<open>Failed to process video download\<close>; the
  error-handling middleware writes the same response for any two errors; and any two requests
  that the handler answers with 500 get the same body.
\<close>

theorem production_500_body_is_generic:
  assumes "env \<noteq> Some ''development''"
  shows "download_catch env e1 r = download_catch env e2 r
     \<and> sent (download_catch env e1 r) =
         SentJson (JObj [(''error'', JStr ''Internal server error''),
                         (''message'', JStr ''Failed to process video download'')])
     \<and> error_middleware env e1 r = error_middleware env e2 r
     \<and> (statusCode (fst (download env w1 url1)) = 500
          \<and> statusCode (fst (download env w2 url2)) = 500
          \<longrightarrow> sent (fst (download env w1 url1)) = sent (fst (download env w2 url2)))"
  using assms download_500_body [OF assms, of w1 url1] download_500_body [OF assms, of w2 url2]
  by (simp add: download_catch_def error_middleware_def res_json_def res_status_def)

theorem production_500_body_is_generic_witness:
  "Some ''production'' \<noteq> Some ''development''
   \<and> download_catch (Some ''production'') (Error ''ECONNREFUSED 10.0.0.7:443'') new_res
       = download_catch (Some ''production'') (Error ''timeout of 15000ms exceeded'') new_res
   \<and> statusCode (fst (download (Some ''production'') unreachable_upstream reel_url)) = 500
   \<and> statusCode (fst (download (Some ''production'') html_upstream reel_url)) = 500
   \<and> sent (fst (download (Some ''production'') unreachable_upstream reel_url))
       = sent (fst (download (Some ''production'') html_upstream reel_url))"
proof -
  have env: "Some ''production'' \<noteq> Some ''development''" by simp
  have s1: "statusCode (fst (download (Some ''production'') unreachable_upstream reel_url)) = 500"
    unfolding download_resolution_failure [OF reel_url_valid fetchVideoInfo_unreachable]
    by (simp add: download_catch_def res_json_def res_status_def)
  have s2: "statusCode (fst (download (Some ''production'') html_upstream reel_url)) = 500"
    unfolding download_resolution_failure [OF reel_url_valid fetchVideoInfo_html]
    by (simp add: download_catch_def res_json_def res_status_def)
  show ?thesis
    using production_500_body_is_generic [OF env,
        of "Error ''ECONNREFUSED 10.0.0.7:443''" new_res "Error ''timeout of 15000ms exceeded''"
           unreachable_upstream reel_url html_upstream reel_url]
      s1 s2 env by blast
qed

section \<open>Properties of the retry policy\<close>

lemmas retry_defs =
  request_failed_def shouldRetryRequest_def retryAfter_allows_def in_ranges_def rax_defaults_def
  fetchVideoInfo_raxConfig_def fetchVideo_raxConfig_def
  fetchVideoInfo_validateStatus_def fetchVideo_validateStatus_def plain_def

lemma shouldRetryRequest_budget:
  "shouldRetryRequest cfg meth a \<Longrightarrow> currentRetryAttempt cfg < retry cfg"
  by (simp add: shouldRetryRequest_def split: if_splits)

lemma shouldRetryRequest_in_ranges:
  "shouldRetryRequest cfg meth (HttpResponse s ra) \<Longrightarrow> 0 < s \<Longrightarrow>
     in_ranges (statusCodesToRetry cfg) s"
  by (simp add: shouldRetryRequest_def split: if_splits)

text \<open>One step of the client: the request is issued again, or the outcome is final.\<close>

lemma axios_get_retry:
  assumes "request_failed validateStatus (outcomes k)" and "k = 0 \<or> reattached"
    and "shouldRetryRequest cfg ''GET'' (outcomes k)" and "retryAfter_allows cfg (outcomes k)"
  shows "axios_get reattached validateStatus cfg outcomes k =
     axios_get reattached validateStatus
       (cfg\<lparr>currentRetryAttempt := currentRetryAttempt cfg + 1\<rparr>) outcomes (k + 1)"
  using assms by (subst axios_get.simps) (simp add: Let_def)

lemma axios_get_final:
  assumes "\<not> (request_failed validateStatus (outcomes k) \<and> (k = 0 \<or> reattached)
         \<and> shouldRetryRequest cfg ''GET'' (outcomes k) \<and> retryAfter_allows cfg (outcomes k))"
  shows "axios_get reattached validateStatus cfg outcomes k = (outcomes k, k + 1)"
  using assms by (subst axios_get.simps) (auto simp add: Let_def)

text \<open>The number of requests issued, from the \<open>k\<close>-th on: at least one, at most the budget.\<close>

lemma axios_get_calls_lower:
  "k + 1 \<le> snd (axios_get reattached validateStatus cfg outcomes k)"
proof (induction reattached validateStatus cfg outcomes k rule: axios_get.induct)
  case (1 reattached validateStatus cfg outcomes k)
  show ?case
  proof (cases "request_failed validateStatus (outcomes k) \<and> (k = 0 \<or> reattached)
         \<and> shouldRetryRequest cfg ''GET'' (outcomes k) \<and> retryAfter_allows cfg (outcomes k)")
    case True
    then have "axios_get reattached validateStatus cfg outcomes k =
        axios_get reattached validateStatus
          (cfg\<lparr>currentRetryAttempt := currentRetryAttempt cfg + 1\<rparr>) outcomes (k + 1)"
      by (intro axios_get_retry) simp_all
    moreover have "k + 1 + 1 \<le> snd (axios_get reattached validateStatus
        (cfg\<lparr>currentRetryAttempt := currentRetryAttempt cfg + 1\<rparr>) outcomes (k + 1))"
      using "1.IH" [OF refl] True by simp
    ultimately show ?thesis by simp
  next
    case False
    then show ?thesis by (simp add: axios_get_final)
  qed
qed

lemma axios_get_calls_upper:
  "snd (axios_get reattached validateStatus cfg outcomes k)
     \<le> k + 1 + (retry cfg - currentRetryAttempt cfg)"
proof (induction reattached validateStatus cfg outcomes k rule: axios_get.induct)
  case (1 reattached validateStatus cfg outcomes k)
  show ?case
  proof (cases "request_failed validateStatus (outcomes k) \<and> (k = 0 \<or> reattached)
         \<and> shouldRetryRequest cfg ''GET'' (outcomes k) \<and> retryAfter_allows cfg (outcomes k)")
    case True
    then have lt: "currentRetryAttempt cfg < retry cfg"
      by (auto dest: shouldRetryRequest_budget)
    from True have "axios_get reattached validateStatus cfg outcomes k =
        axios_get reattached validateStatus
          (cfg\<lparr>currentRetryAttempt := currentRetryAttempt cfg + 1\<rparr>) outcomes (k + 1)"
      by (intro axios_get_retry) simp_all
    moreover have "snd (axios_get reattached validateStatus
        (cfg\<lparr>currentRetryAttempt := currentRetryAttempt cfg + 1\<rparr>) outcomes (k + 1))
        \<le> k + 1 + 1 + (retry cfg - (currentRetryAttempt cfg + 1))"
      using "1.IH" [OF refl] True by simp
    ultimately show ?thesis using lt by simp
  next
    case False
    then show ?thesis by (simp add: axios_get_final)
  qed
qed

text \<open>The outcome returned is that of the last request issued.\<close>

lemma axios_get_last:
  "fst (axios_get reattached validateStatus cfg outcomes k) =
     outcomes (snd (axios_get reattached validateStatus cfg outcomes k) - 1)"
proof (induction reattached validateStatus cfg outcomes k rule: axios_get.induct)
  case (1 reattached validateStatus cfg outcomes k)
  show ?case
  proof (cases "request_failed validateStatus (outcomes k) \<and> (k = 0 \<or> reattached)
         \<and> shouldRetryRequest cfg ''GET'' (outcomes k) \<and> retryAfter_allows cfg (outcomes k)")
    case True
    then have "axios_get reattached validateStatus cfg outcomes k =
        axios_get reattached validateStatus
          (cfg\<lparr>currentRetryAttempt := currentRetryAttempt cfg + 1\<rparr>) outcomes (k + 1)"
      by (intro axios_get_retry) simp_all
    then show ?thesis using "1.IH" [OF refl] True by simp
  next
    case False
    then show ?thesis by (simp add: axios_get_final)
  qed
qed

text \<open>
  A request that is followed by another one had failed with an outcome that
  \<^verbatim>\<open>shouldRetryRequest\<close> accepts at some count of retries.
\<close>

lemma axios_get_followed:
  "k \<le> j \<Longrightarrow> j + 1 < snd (axios_get reattached validateStatus cfg outcomes k) \<Longrightarrow>
     request_failed validateStatus (outcomes j)
     \<and> (\<exists>n. shouldRetryRequest (cfg\<lparr>currentRetryAttempt := n\<rparr>) ''GET'' (outcomes j))"
proof (induction reattached validateStatus cfg outcomes k rule: axios_get.induct)
  case (1 reattached validateStatus cfg outcomes k)
  show ?case
  proof (cases "request_failed validateStatus (outcomes k) \<and> (k = 0 \<or> reattached)
         \<and> shouldRetryRequest cfg ''GET'' (outcomes k) \<and> retryAfter_allows cfg (outcomes k)")
    case True
    then have eq: "axios_get reattached validateStatus cfg outcomes k =
        axios_get reattached validateStatus
          (cfg\<lparr>currentRetryAttempt := currentRetryAttempt cfg + 1\<rparr>) outcomes (k + 1)"
      by (intro axios_get_retry) simp_all
    show ?thesis
    proof (cases "j = k")
      case True
      have "shouldRetryRequest (cfg\<lparr>currentRetryAttempt := currentRetryAttempt cfg\<rparr>) ''GET''
          (outcomes k)"
        using \<open>request_failed validateStatus (outcomes k) \<and> (k = 0 \<or> reattached)
         \<and> shouldRetryRequest cfg ''GET'' (outcomes k) \<and> retryAfter_allows cfg (outcomes k)\<close>
        by simp
      then show ?thesis
        using True \<open>request_failed validateStatus (outcomes k) \<and> (k = 0 \<or> reattached)
         \<and> shouldRetryRequest cfg ''GET'' (outcomes k) \<and> retryAfter_allows cfg (outcomes k)\<close>
        by blast
    next
      case False
      with "1.prems" have "k + 1 \<le> j" by simp
      moreover have "j + 1 < snd (axios_get reattached validateStatus
          (cfg\<lparr>currentRetryAttempt := currentRetryAttempt cfg + 1\<rparr>) outcomes (k + 1))"
        using "1.prems"(2) eq by simp
      ultimately have "request_failed validateStatus (outcomes j)
          \<and> (\<exists>n. shouldRetryRequest
                ((cfg\<lparr>currentRetryAttempt := currentRetryAttempt cfg + 1\<rparr>)
                   \<lparr>currentRetryAttempt := n\<rparr>) ''GET'' (outcomes j))"
        using "1.IH" [OF refl] \<open>request_failed validateStatus (outcomes k) \<and> (k = 0 \<or> reattached)
         \<and> shouldRetryRequest cfg ''GET'' (outcomes k) \<and> retryAfter_allows cfg (outcomes k)\<close>
        by blast
      then show ?thesis by simp
    qed
  next
    case False
    then have "snd (axios_get reattached validateStatus cfg outcomes k) = k + 1"
      by (simp add: axios_get_final)
    with "1.prems" show ?thesis by simp
  qed
qed

text \<open>Exactly one request is issued when the first attempt is not retried, and only then.\<close>

lemma axios_get_single:
  "snd (axios_get reattached validateStatus cfg outcomes 0) = 1 \<longleftrightarrow>
     \<not> (request_failed validateStatus (outcomes 0)
        \<and> shouldRetryRequest cfg ''GET'' (outcomes 0) \<and> retryAfter_allows cfg (outcomes 0))"
proof (cases "request_failed validateStatus (outcomes 0)
    \<and> shouldRetryRequest cfg ''GET'' (outcomes 0) \<and> retryAfter_allows cfg (outcomes 0)")
  case True
  then have "axios_get reattached validateStatus cfg outcomes 0 =
      axios_get reattached validateStatus
        (cfg\<lparr>currentRetryAttempt := currentRetryAttempt cfg + 1\<rparr>) outcomes (0 + 1)"
    by (intro axios_get_retry) simp_all
  moreover have "2 \<le> snd (axios_get reattached validateStatus
      (cfg\<lparr>currentRetryAttempt := currentRetryAttempt cfg + 1\<rparr>) outcomes (0 + 1))"
    using axios_get_calls_lower [of 1 reattached validateStatus
        "cfg\<lparr>currentRetryAttempt := currentRetryAttempt cfg + 1\<rparr>" outcomes] by simp
  ultimately show ?thesis using True by simp
next
  case False
  then show ?thesis by (simp add: axios_get_final)
qed

lemma fetchVideoInfo_ranges:
  "in_ranges (statusCodesToRetry fetchVideoInfo_raxConfig) s \<longleftrightarrow>
     (408 \<le> s \<and> s \<le> 429) \<or> (500 \<le> s \<and> s \<le> 599)"
  by (simp add: in_ranges_def fetchVideoInfo_raxConfig_def rax_defaults_def)

lemma fetchVideoInfo_get_upper: "snd (fetchVideoInfo_get reattached outcomes) \<le> 4"
  using axios_get_calls_upper [of reattached fetchVideoInfo_validateStatus
      fetchVideoInfo_raxConfig outcomes 0]
  by (simp add: fetchVideoInfo_get_def fetchVideoInfo_raxConfig_def rax_defaults_def)

lemma fetchVideoInfo_get_all_500:
  assumes "\<And>k. outcomes k = plain 500"
  shows "fetchVideoInfo_get reattached outcomes = (plain 500, if reattached then 4 else 2)"
  using assms by (simp add: fetchVideoInfo_get_def axios_get.simps retry_defs)

lemma fetchVideoInfo_get_third:
  assumes "outcomes 0 = plain 500" "outcomes 1 = plain 500" "outcomes 2 = HttpResponse 200 ra"
  shows "fetchVideoInfo_get True outcomes = (HttpResponse 200 ra, 3)"
proof -
  have "outcomes (Suc (Suc 0)) = HttpResponse 200 ra"
    using assms(3) by (simp add: numeral_2_eq_2)
  with assms(1,2) show ?thesis
    by (simp add: fetchVideoInfo_get_def axios_get.simps retry_defs)
qed

lemma fetchVideoInfo_get_not_reattached:
  assumes "outcomes 0 = plain 500" "outcomes 1 = plain 500"
  shows "fetchVideoInfo_get False outcomes = (plain 500, 2)"
  using assms by (simp add: fetchVideoInfo_get_def axios_get.simps retry_defs)

subsection \<open>Which status codes are retried\<close>

text \<open>
  Claim C3 as stated fails: a metadata response with status 410, a code between 409 and 428,
  is retried. The upstream \<open>gone_once\<close> answers 410 and then 200; the resolver issues two
  requests.
\<close>

theorem status_410_is_retried:
  "gone_once 0 = HttpResponse 410 NoRetryAfter
   \<and> fetchVideoInfo_get True gone_once = (HttpResponse 200 NoRetryAfter, 2)
   \<and> fetchVideoInfo_get False gone_once = (HttpResponse 200 NoRetryAfter, 2)"
  by (simp add: fetchVideoInfo_get_def axios_get.simps retry_defs gone_once_def)

text \<open>
  Claim C3, as the code has it. \<^verbatim>\<open>statusCodesToRetry: [[408, 429], [500, 599]]\<close> is two
  ranges. A metadata request is followed by a retry only when the status code of its
  response is in 408 to 429 or in 500 to 599. The first response is followed by a retry
  exactly when its status code is in one of the two ranges, the codes 409 to 428 included,
  and it carries no \<^verbatim>\<open>Retry-After\<close> header or one whose delay is above zero and at most
  five minutes.
\<close>

theorem fetchVideoInfo_get_retried_statuses:
  "(\<forall>k s ra. k + 1 < snd (fetchVideoInfo_get reattached outcomes)
        \<and> outcomes k = HttpResponse s ra \<and> 0 < s
        \<longrightarrow> (408 \<le> s \<and> s \<le> 429) \<or> (500 \<le> s \<and> s \<le> 599))
   \<and> (\<forall>s ra. outcomes 0 = HttpResponse s ra \<and> 0 < s
        \<longrightarrow> (1 < snd (fetchVideoInfo_get reattached outcomes)
              \<longleftrightarrow> ((408 \<le> s \<and> s \<le> 429) \<or> (500 \<le> s \<and> s \<le> 599))
                  \<and> (ra = NoRetryAfter
                     \<or> (\<exists>ms. ra = RetryAfter (Some ms) \<and> 0 < ms \<and> ms \<le> 300000))))"
proof -
  have a: "(408 \<le> s \<and> s \<le> 429) \<or> (500 \<le> s \<and> s \<le> 599)"
    if "k + 1 < snd (fetchVideoInfo_get reattached outcomes)"
      and "outcomes k = HttpResponse s ra" and "0 < s" for k s ra
  proof -
    from that(1) obtain n where
      "shouldRetryRequest (fetchVideoInfo_raxConfig\<lparr>currentRetryAttempt := n\<rparr>) ''GET''
         (outcomes k)"
      using axios_get_followed [of 0 k reattached fetchVideoInfo_validateStatus
          fetchVideoInfo_raxConfig outcomes]
      by (auto simp: fetchVideoInfo_get_def)
    then have "in_ranges (statusCodesToRetry fetchVideoInfo_raxConfig) s"
      using shouldRetryRequest_in_ranges
        [of "fetchVideoInfo_raxConfig\<lparr>currentRetryAttempt := n\<rparr>" "''GET''" s ra] that(2,3)
      by simp
    then show ?thesis by (simp only: fetchVideoInfo_ranges)
  qed
  have b: "1 < snd (fetchVideoInfo_get reattached outcomes)
      \<longleftrightarrow> ((408 \<le> s \<and> s \<le> 429) \<or> (500 \<le> s \<and> s \<le> 599))
          \<and> (ra = NoRetryAfter \<or> (\<exists>ms. ra = RetryAfter (Some ms) \<and> 0 < ms \<and> ms \<le> 300000))"
    if o: "outcomes 0 = HttpResponse s ra" and "0 < s" for s ra
  proof -
    have "1 < snd (fetchVideoInfo_get reattached outcomes) \<longleftrightarrow>
        snd (fetchVideoInfo_get reattached outcomes) \<noteq> 1"
      using axios_get_calls_lower [of 0 reattached fetchVideoInfo_validateStatus
          fetchVideoInfo_raxConfig outcomes]
      by (auto simp: fetchVideoInfo_get_def)
    also have "\<dots> \<longleftrightarrow> ((408 \<le> s \<and> s \<le> 429) \<or> (500 \<le> s \<and> s \<le> 599))
          \<and> (ra = NoRetryAfter \<or> (\<exists>ms. ra = RetryAfter (Some ms) \<and> 0 < ms \<and> ms \<le> 300000))"
      unfolding fetchVideoInfo_get_def axios_get_single o
      using that(2) by (auto simp: retry_defs split: retry_after.splits option.splits)
    finally show ?thesis .
  qed
  from a b show ?thesis by blast
qed

theorem fetchVideoInfo_get_retried_statuses_witness:
  "(0::nat) + 1 < snd (fetchVideoInfo_get True gone_once)
   \<and> gone_once 0 = HttpResponse 410 NoRetryAfter \<and> (0::nat) < 410
   \<and> ((408::nat) \<le> 410 \<and> (410::nat) \<le> 429)
   \<and> (\<lambda>k. plain 404) 0 = HttpResponse 404 NoRetryAfter \<and> (0::nat) < 404
   \<and> \<not> 1 < snd (fetchVideoInfo_get True (\<lambda>k. plain 404))
   \<and> throttled 0 = HttpResponse 500 (RetryAfter (Some 0)) \<and> (0::nat) < 500
   \<and> \<not> 1 < snd (fetchVideoInfo_get True throttled)"
proof -
  have g: "gone_once 0 = HttpResponse 410 NoRetryAfter"
    "(\<lambda>k. plain 404) 0 = HttpResponse 404 NoRetryAfter"
    "throttled 0 = HttpResponse 500 (RetryAfter (Some 0))"
    by (simp_all add: gone_once_def plain_def throttled_def)
  show ?thesis
    using fetchVideoInfo_get_retried_statuses [of True gone_once]
      fetchVideoInfo_get_retried_statuses [of True "\<lambda>k. plain 404"]
      fetchVideoInfo_get_retried_statuses [of True throttled] g
    by simp
qed

subsection \<open>How many metadata requests are issued\<close>

text \<open>
  Claim C4 as stated fails: an upstream that answers 500 to every request does not fail after
  exactly three requests. The resolver issues four when a retried request passes through the
  interceptor again, and two when it does not.
\<close>

theorem all_500_is_not_three_calls:
  "fetchVideoInfo_get True always_500 = (HttpResponse 500 NoRetryAfter, 4)
   \<and> fetchVideoInfo_get False always_500 = (HttpResponse 500 NoRetryAfter, 2)"
  by (simp add: fetchVideoInfo_get_def axios_get.simps retry_defs always_500_def)

text \<open>
  Claim C4, as the code has it. \<^verbatim>\<open>retry: 3\<close> counts the retries after the first attempt:
  every metadata resolution issues at most four upstream requests. An upstream that answers
  500 to every request fails (the last outcome is a rejected request, so \<^verbatim>\<open>fetchVideoInfo\<close>
  throws); when its responses carry no \<^verbatim>\<open>Retry-After\<close> header this takes four requests if a
  retried request passes through the interceptor again and two if it does not, and a single
  request when the first response carries a \<^verbatim>\<open>Retry-After\<close> header from which no delay
  above zero and of at most five minutes is read. An upstream that answers 500 twice,
  without the header, and then 200 succeeds with exactly three requests if a retried request
  passes through the interceptor again, and fails after two if it does not.
\<close>

theorem fetchVideoInfo_get_call_bound:
  "snd (fetchVideoInfo_get reattached outcomes) \<le> 4
   \<and> ((\<forall>k. \<exists>ra. outcomes k = HttpResponse 500 ra) \<longrightarrow>
        request_failed fetchVideoInfo_validateStatus
          (fst (fetchVideoInfo_get reattached outcomes)))
   \<and> ((\<forall>k. outcomes k = HttpResponse 500 NoRetryAfter) \<longrightarrow>
        fetchVideoInfo_get reattached outcomes
          = (HttpResponse 500 NoRetryAfter, if reattached then 4 else 2))
   \<and> (outcomes 0 = HttpResponse 500 (RetryAfter d)
        \<and> (case d of None \<Rightarrow> True | Some ms \<Rightarrow> ms \<le> 0 \<or> 300000 < ms)
        \<longrightarrow> fetchVideoInfo_get reattached outcomes = (HttpResponse 500 (RetryAfter d), 1))
   \<and> (outcomes 0 = HttpResponse 500 NoRetryAfter \<and> outcomes 1 = HttpResponse 500 NoRetryAfter
        \<and> outcomes 2 = HttpResponse 200 ra
        \<longrightarrow> fetchVideoInfo_get True outcomes = (HttpResponse 200 ra, 3)
            \<and> \<not> request_failed fetchVideoInfo_validateStatus
                (fst (fetchVideoInfo_get True outcomes))
            \<and> fetchVideoInfo_get False outcomes = (HttpResponse 500 NoRetryAfter, 2))"
proof -
  have "request_failed fetchVideoInfo_validateStatus
      (fst (fetchVideoInfo_get reattached outcomes))"
    if "\<forall>k. \<exists>ra. outcomes k = HttpResponse 500 ra"
  proof -
    from that obtain ra where
      "outcomes (snd (fetchVideoInfo_get reattached outcomes) - 1) = HttpResponse 500 ra"
      by blast
    then have "fst (fetchVideoInfo_get reattached outcomes) = HttpResponse 500 ra"
      using axios_get_last [of reattached fetchVideoInfo_validateStatus
          fetchVideoInfo_raxConfig outcomes 0]
      by (simp add: fetchVideoInfo_get_def)
    then show ?thesis
      by (simp add: request_failed_def fetchVideoInfo_validateStatus_def)
  qed
  moreover have "fetchVideoInfo_get reattached outcomes
      = (HttpResponse 500 NoRetryAfter, if reattached then 4 else 2)"
    if "\<forall>k. outcomes k = HttpResponse 500 NoRetryAfter"
    using fetchVideoInfo_get_all_500 [of outcomes reattached] that
    by (simp add: plain_def)
  moreover have "fetchVideoInfo_get True outcomes = (HttpResponse 200 ra, 3)
      \<and> \<not> request_failed fetchVideoInfo_validateStatus (fst (fetchVideoInfo_get True outcomes))
      \<and> fetchVideoInfo_get False outcomes = (HttpResponse 500 NoRetryAfter, 2)"
    if "outcomes 0 = HttpResponse 500 NoRetryAfter \<and> outcomes 1 = HttpResponse 500 NoRetryAfter
        \<and> outcomes 2 = HttpResponse 200 ra"
    using fetchVideoInfo_get_third [of outcomes ra]
      fetchVideoInfo_get_not_reattached [of outcomes] that
    by (simp add: request_failed_def fetchVideoInfo_validateStatus_def plain_def)
  moreover have "fetchVideoInfo_get reattached outcomes = (HttpResponse 500 (RetryAfter d), 1)"
    if "outcomes 0 = HttpResponse 500 (RetryAfter d)
        \<and> (case d of None \<Rightarrow> True | Some ms \<Rightarrow> ms \<le> 0 \<or> 300000 < ms)"
    using that
    by (auto simp: fetchVideoInfo_get_def axios_get_final retry_defs split: option.splits)
  ultimately show ?thesis using fetchVideoInfo_get_upper [of reattached outcomes] by blast
qed

theorem fetchVideoInfo_get_call_bound_witness:
  "snd (fetchVideoInfo_get True always_500) \<le> 4
   \<and> (\<forall>k. always_500 k = HttpResponse 500 NoRetryAfter)
   \<and> fetchVideoInfo_get True always_500 = (HttpResponse 500 NoRetryAfter, 4)
   \<and> request_failed fetchVideoInfo_validateStatus (fst (fetchVideoInfo_get True always_500))
   \<and> recovers_on_third 0 = HttpResponse 500 NoRetryAfter
   \<and> recovers_on_third 1 = HttpResponse 500 NoRetryAfter
   \<and> recovers_on_third 2 = HttpResponse 200 NoRetryAfter
   \<and> fetchVideoInfo_get True recovers_on_third = (HttpResponse 200 NoRetryAfter, 3)
   \<and> fetchVideoInfo_get False recovers_on_third = (HttpResponse 500 NoRetryAfter, 2)
   \<and> throttled 0 = HttpResponse 500 (RetryAfter (Some 0))
   \<and> fetchVideoInfo_get True throttled = (HttpResponse 500 (RetryAfter (Some 0)), 1)"
proof -
  have a: "\<forall>k. always_500 k = HttpResponse 500 NoRetryAfter"
    by (simp add: always_500_def plain_def)
  then have a': "\<forall>k. \<exists>ra. always_500 k = HttpResponse 500 ra" by blast
  have r: "recovers_on_third 0 = HttpResponse 500 NoRetryAfter
      \<and> recovers_on_third 1 = HttpResponse 500 NoRetryAfter
      \<and> recovers_on_third 2 = HttpResponse 200 NoRetryAfter"
    by (simp add: recovers_on_third_def plain_def)
  have v: "throttled 0 = HttpResponse 500 (RetryAfter (Some 0))"
    by (simp add: throttled_def)
  show ?thesis
    using fetchVideoInfo_get_call_bound [of True always_500]
      fetchVideoInfo_get_call_bound [of True recovers_on_third _ NoRetryAfter]
      fetchVideoInfo_get_call_bound [of True throttled "Some 0"] a a' r v
    by (simp add: request_failed_def fetchVideoInfo_validateStatus_def)
qed

subsection \<open>Retries of the media request\<close>

text \<open>
  Claim C5 as stated fails: the media request goes through the client the interceptor is
  attached to, and a first response with status 503 and no \<^verbatim>\<open>Retry-After\<close> header is
  followed by a second request.
\<close>

theorem media_fetch_is_retried:
  "flaky_media 0 = HttpResponse 503 NoRetryAfter
   \<and> fetchVideo_get True flaky_media = (HttpResponse 206 NoRetryAfter, 2)
   \<and> fetchVideo_get False flaky_media = (HttpResponse 206 NoRetryAfter, 2)"
  by (simp add: fetchVideo_get_def axios_get.simps retry_defs flaky_media_def)

text \<open>
  Claim C5, as the code has it. A media fetch whose first attempt succeeds, with a status
  from 200 to 299, issues exactly one upstream request. The fetch is not exempt from retries:
  a failed attempt is handed to the interceptor attached to the client, as the upstream above
  shows.
\<close>

theorem fetchVideo_get_single_on_success:
  assumes "outcomes 0 = HttpResponse s ra" and "200 \<le> s" and "s < 300"
  shows "fetchVideo_get reattached outcomes = (HttpResponse s ra, 1)"
  using assms
  by (simp add: fetchVideo_get_def axios_get_final request_failed_def
      fetchVideo_validateStatus_def)

theorem fetchVideo_get_single_on_success_witness:
  "steady_media 0 = HttpResponse 206 NoRetryAfter \<and> (200::nat) \<le> 206 \<and> (206::nat) < 300
   \<and> fetchVideo_get True steady_media = (HttpResponse 206 NoRetryAfter, 1)
   \<and> fetchVideo_get False steady_media = (HttpResponse 206 NoRetryAfter, 1)"
proof -
  have s: "steady_media 0 = HttpResponse 206 NoRetryAfter"
    by (simp add: steady_media_def plain_def)
  show ?thesis
    using fetchVideo_get_single_on_success [of steady_media 206 NoRetryAfter True]
      fetchVideo_get_single_on_success [of steady_media 206 NoRetryAfter False] s
    by simp
qed

end
